theory Spec2Isabelle
  imports Main "HOL-Library.Word"
begin

unbundle bit_operations_syntax

type_synonym u8 = "8 word"
type_synonym u16 = "16 word"
type_synonym u32 = "32 word"

section \<open>The sprite document of paq\_aseprite.h\<close>

text \<open>
  The structs of the primary API. A pointer field is a type parameter of its record: the
  decoder's model below instantiates it with the pointee (an array is the list of its
  elements, a \<open>char *\<close> or a pixel buffer is \<open>Some\<close> of its bytes, a null pointer is
  \<open>None\<close>), the model of \<open>ASE_free\<close> instantiates it with an address of an explicit store.
  Field names carry the struct's name as a prefix, since a record field is a global
  constant. A C \<open>int\<close> that only counts or indexes is an unbounded \<open>int\<close>; the fixed-width
  fields are words, the signed ones read with \<open>sint\<close>.
\<close>

text \<open>
  \<open>ASE_Pixel32\<close> is a union of a 32-bit \<open>rgba\<close> and the bytes \<open>r, g, b, a\<close>. The model
  keeps the bytes; \<open>rgba\<close> is written through \<open>ASE_Pixel32_of_rgba\<close>, which lays the
  value out as a little-endian host does (\<open>r\<close> is the low byte).
\<close>

record ASE_Pixel32 =
  px_r :: u8
  px_g :: u8
  px_b :: u8
  px_a :: u8

definition ASE_Pixel32_of_rgba :: "u32 \<Rightarrow> ASE_Pixel32" where
  "ASE_Pixel32_of_rgba v =
    \<lparr>px_r = ucast v, px_g = ucast (drop_bit 8 v),
     px_b = ucast (drop_bit 16 v), px_a = ucast (drop_bit 24 v)\<rparr>"

text \<open>
  \<open>ASE_Palette\<close>: the count is a \<open>uint8_t\<close>; the array of 256 colors is a function on the
  8-bit indices.
\<close>

record ASE_Palette =
  pal_ncolors :: u8
  pal_colors :: "u8 \<Rightarrow> ASE_Pixel32"

record 'n ASE_Layer =
  lay_name :: 'n
  lay_flags :: u16
  lay_type :: u16
  lay_blendmode :: u16
  lay_opacity :: u8
  lay_child_level :: int
  lay_parent :: int
  lay_visible :: int

record 'd ASE_Cel =
  cel_layer :: u16
  cel_x :: u16
  cel_y :: u16
  cel_w :: u16
  cel_h :: u16
  cel_opacity :: u8
  cel_data :: 'd
  cel_is_linked :: int
  cel_frame :: int

record 'c ASE_Frame =
  frm_duration :: u16
  frm_ncels :: int
  frm_cels :: 'c

record 'n ASE_Tag =
  tag_from :: "16 word"
  tag_to :: "16 word"
  tag_dir :: "16 word"
  tag_name :: 'n

record ('l, 'f, 't) ASE_Sprite =
  spr_width :: u16
  spr_height :: u16
  spr_depth :: u16
  spr_palette :: ASE_Palette
  spr_nlayers :: int
  spr_layers :: 'l
  spr_nframes :: int
  spr_frames :: 'f
  spr_ntags :: int
  spr_tags :: 't

text \<open>The decoder's view: every pointer is its pointee.\<close>

type_synonym layer = "u8 list option ASE_Layer"
type_synonym cel = "u8 list option ASE_Cel"
type_synonym frame = "cel list ASE_Frame"
type_synonym tag = "u8 list option ASE_Tag"
type_synonym sprite = "(layer list, frame list, tag list) ASE_Sprite"

text \<open>The values \<open>memset\<close> with zero leaves.\<close>

definition zero_pixel :: ASE_Pixel32 where
  "zero_pixel = \<lparr>px_r = 0, px_g = 0, px_b = 0, px_a = 0\<rparr>"

definition zero_palette :: ASE_Palette where
  "zero_palette = \<lparr>pal_ncolors = 0, pal_colors = (\<lambda>_. zero_pixel)\<rparr>"

definition zero_layer :: layer where
  "zero_layer = \<lparr>lay_name = None, lay_flags = 0, lay_type = 0, lay_blendmode = 0,
     lay_opacity = 0, lay_child_level = 0, lay_parent = 0, lay_visible = 0\<rparr>"

definition zero_cel :: cel where
  "zero_cel = \<lparr>cel_layer = 0, cel_x = 0, cel_y = 0, cel_w = 0, cel_h = 0, cel_opacity = 0,
     cel_data = None, cel_is_linked = 0, cel_frame = 0\<rparr>"

definition zero_frame :: frame where
  "zero_frame = \<lparr>frm_duration = 0, frm_ncels = 0, frm_cels = []\<rparr>"

definition zero_tag :: tag where
  "zero_tag = \<lparr>tag_from = 0, tag_to = 0, tag_dir = 0, tag_name = None\<rparr>"

definition zero_sprite :: sprite where
  "zero_sprite = \<lparr>spr_width = 0, spr_height = 0, spr_depth = 0, spr_palette = zero_palette,
     spr_nlayers = 0, spr_layers = [], spr_nframes = 0, spr_frames = [],
     spr_ntags = 0, spr_tags = []\<rparr>"

section \<open>The byte source: \<open>ASE__ctx\<close> with the memory callbacks\<close>

text \<open>
  The decoder reads through five callbacks (\<open>read\<close>, \<open>skip\<close>, \<open>eof\<close>, \<open>tell\<close>, \<open>seek\<close>).
  The memory callbacks are part of the source and are the ones modelled; the file
  callbacks call the C library and are not. The context is the memory seen from
  \<open>buf_orig\<close> (\<open>ctx_mem i\<close> is the byte at \<open>buf_orig + i\<close>), the length \<open>buf_end - buf_orig\<close> and
  the position \<open>buf - buf_orig\<close>. \<open>ASE__mem_seek\<close> moves the pointer anywhere, also before
  \<open>buf_orig\<close>, where \<open>ASE__mem_read\<close> goes on reading: the memory is a function on all
  offsets for that reason.
\<close>

record ASE_ctx =
  ctx_mem :: "int \<Rightarrow> u8"
  ctx_len :: int
  ctx_pos :: int

text \<open>\<open>ASE__mem_read\<close>: the bytes copied to \<open>data\<close> (their number is the return value).\<close>

fun ASE__mem_read :: "ASE_ctx \<Rightarrow> nat \<Rightarrow> u8 list \<times> ASE_ctx" where
  "ASE__mem_read C 0 = ([], C)"
| "ASE__mem_read C (Suc n) =
    (if ctx_pos C \<ge> ctx_len C then ([], C)
     else (case ASE__mem_read (C\<lparr>ctx_pos := ctx_pos C + 1\<rparr>) n of
             (bs, C') \<Rightarrow> (ctx_mem C (ctx_pos C) # bs, C')))"

fun ASE__mem_skip :: "ASE_ctx \<Rightarrow> nat \<Rightarrow> ASE_ctx" where
  "ASE__mem_skip C 0 = C"
| "ASE__mem_skip C (Suc n) =
    (if ctx_pos C \<ge> ctx_len C then C else ASE__mem_skip (C\<lparr>ctx_pos := ctx_pos C + 1\<rparr>) n)"

definition ASE__mem_eof :: "ASE_ctx \<Rightarrow> bool" where
  "ASE__mem_eof C = (ctx_pos C \<ge> ctx_len C)"

definition ASE__mem_tell :: "ASE_ctx \<Rightarrow> int" where
  "ASE__mem_tell C = ctx_pos C"

definition ASE__mem_seek :: "ASE_ctx \<Rightarrow> int \<Rightarrow> ASE_ctx" where
  "ASE__mem_seek C pos = C\<lparr>ctx_pos := pos\<rparr>"

text \<open>
  The callbacks take and return \<open>int\<close>, the decoder computes offsets in \<open>size_t\<close>. A
  \<open>size_t\<close> passed for an \<open>int\<close> keeps its low 32 bits, read as two's complement; since
  \<open>size_t\<close> arithmetic is itself modulo a multiple of \<open>2 ^ 32\<close>, the offset that reaches the
  callback is the exact sum reduced this way, whatever the width of \<open>size_t\<close>.
\<close>

definition int_of_size_t :: "int \<Rightarrow> int" where
  "int_of_size_t n = signed_take_bit 31 n"

text \<open>\<open>ASE__start_mem\<close>.\<close>

definition ASE__start_mem :: "(int \<Rightarrow> u8) \<Rightarrow> int \<Rightarrow> ASE_ctx" where
  "ASE__start_mem buf len = \<lparr>ctx_mem = buf, ctx_len = len, ctx_pos = 0\<rparr>"

text \<open>A buffer given as the list of its bytes (zero outside it).\<close>

definition mem_of :: "u8 list \<Rightarrow> int \<Rightarrow> u8" where
  "mem_of bs i = (if 0 \<le> i \<and> i < int (length bs) then bs ! nat i else 0)"

subsection \<open>Generic reads\<close>

text \<open>
  Little-endian; a short read gives \<open>0\<close> and leaves the position after the bytes that
  were there.
\<close>

definition ASE__read8 :: "ASE_ctx \<Rightarrow> u8 \<times> ASE_ctx" where
  "ASE__read8 c =
    (case ASE__mem_read c 1 of
       (v, c') \<Rightarrow> (if length v = 1 then v ! 0 else 0, c'))"

definition ASE__read16 :: "ASE_ctx \<Rightarrow> u16 \<times> ASE_ctx" where
  "ASE__read16 c =
    (case ASE__mem_read c 2 of
       (v, c') \<Rightarrow>
         (if length v = 2 then push_bit 8 (ucast (v ! 1)) OR ucast (v ! 0) else 0, c'))"

definition ASE__read32 :: "ASE_ctx \<Rightarrow> u32 \<times> ASE_ctx" where
  "ASE__read32 c =
    (case ASE__mem_read c 4 of
       (v, c') \<Rightarrow>
         (if length v = 4
          then push_bit 24 (ucast (v ! 3)) OR push_bit 16 (ucast (v ! 2))
               OR push_bit 8 (ucast (v ! 1)) OR ucast (v ! 0)
          else 0, c'))"

text \<open>\<open>n\<close> successive \<open>ASE__read8\<close>: the loops that fill a buffer byte by byte.\<close>

fun read_bytes :: "nat \<Rightarrow> ASE_ctx \<Rightarrow> u8 list \<times> ASE_ctx" where
  "read_bytes 0 F = ([], F)"
| "read_bytes (Suc n) F =
    (case ASE__read8 F of
       (b, F') \<Rightarrow> (case read_bytes n F' of (bs, F'') \<Rightarrow> (b # bs, F'')))"

text \<open>
  \<open>ASE_DOC_read_string\<close>: a 16-bit length, then that many bytes. The test
  \<open>Length != EOF\<close> compares a \<open>uint16_t\<close> with \<open>-1\<close> and always holds. The result is the
  allocated buffer without its terminating zero.
\<close>

definition ASE_DOC_read_string :: "ASE_ctx \<Rightarrow> u8 list \<times> ASE_ctx" where
  "ASE_DOC_read_string F =
    (case ASE__read16 F of (Length, F') \<Rightarrow> read_bytes (unat Length) F')"

section \<open>Document header\<close>

definition ASE_FILE_MAGIC :: u16 where "ASE_FILE_MAGIC = 0xA5E0"
definition ASE_FILE_FRAME_MAGIC :: u16 where "ASE_FILE_FRAME_MAGIC = 0xF1FA"
definition ASE_DEPTH_RGBA :: u16 where "ASE_DEPTH_RGBA = 32"
definition ASE_DEPTH_GRAYSCALE :: u16 where "ASE_DEPTH_GRAYSCALE = 16"
definition ASE_DEPTH_INDEXED :: u16 where "ASE_DEPTH_INDEXED = 8"

record ASE_DOC_Header =
  hdr_size :: u32
  hdr_magic :: u16
  hdr_frames :: u16
  hdr_width :: u16
  hdr_height :: u16
  hdr_depth :: u16
  hdr_flags :: u32
  hdr_speed :: u16
  hdr_next :: u32
  hdr_frit :: u32
  hdr_transparent_index :: u8
  hdr_ncolors :: u16
  hdr_pixel_w :: u8
  hdr_pixel_h :: u8

text \<open>
  The first half of \<open>ASE_DOC_Header_read\<close>: the fields as the file reports them, in the
  order of the reads (\<open>pixel_h\<close> before \<open>pixel_w\<close>, as in the source).
\<close>

definition ASE_DOC_Header_fields :: "ASE_ctx \<Rightarrow> ASE_DOC_Header \<times> ASE_ctx" where
  "ASE_DOC_Header_fields F0 =
    (case ASE__read32 F0 of (sz, F1) \<Rightarrow>
     case ASE__read16 F1 of (magic, F2) \<Rightarrow>
     case ASE__read16 F2 of (frames, F3) \<Rightarrow>
     case ASE__read16 F3 of (width, F4) \<Rightarrow>
     case ASE__read16 F4 of (height, F5) \<Rightarrow>
     case ASE__read16 F5 of (depth, F6) \<Rightarrow>
     case ASE__read32 F6 of (flags, F7) \<Rightarrow>
     case ASE__read16 F7 of (speed, F8) \<Rightarrow>
     case ASE__read32 F8 of (next, F9) \<Rightarrow>
     case ASE__read32 F9 of (frit, F10) \<Rightarrow>
     case ASE__read8 F10 of (transparent_index, F11) \<Rightarrow>
     case ASE__read16 (ASE__mem_skip F11 3) of (ncolors, F12) \<Rightarrow>
     case ASE__read8 F12 of (pixel_h, F13) \<Rightarrow>
     case ASE__read8 F13 of (pixel_w, F14) \<Rightarrow>
       (\<lparr>hdr_size = sz, hdr_magic = magic, hdr_frames = frames, hdr_width = width,
         hdr_height = height, hdr_depth = depth, hdr_flags = flags, hdr_speed = speed,
         hdr_next = next, hdr_frit = frit, hdr_transparent_index = transparent_index,
         hdr_ncolors = ncolors, hdr_pixel_w = pixel_w, hdr_pixel_h = pixel_h\<rparr>, F14))"

text \<open>
  \<open>ASE_DOC_Header_read\<close>: the return value, the header as left in \<open>*O\<close>, the context.
  On a failed check the function returns at once: the header keeps the reported values
  and the position stays after the last read.
\<close>

definition ASE_DOC_Header_read :: "ASE_ctx \<Rightarrow> bool \<times> ASE_DOC_Header \<times> ASE_ctx" where
  "ASE_DOC_Header_read F =
    (let Pos = ASE__mem_tell F in
     case ASE_DOC_Header_fields F of (O1, F') \<Rightarrow>
       if hdr_magic O1 \<noteq> ASE_FILE_MAGIC then (False, O1, F')
       else if hdr_depth O1 \<noteq> ASE_DEPTH_RGBA \<and> hdr_depth O1 \<noteq> ASE_DEPTH_GRAYSCALE
               \<and> hdr_depth O1 \<noteq> ASE_DEPTH_INDEXED then (False, O1, F')
       else
         (let O2 = (if 0 = hdr_ncolors O1 then O1\<lparr>hdr_ncolors := 256\<rparr> else O1);
              O3 = (if hdr_pixel_w O2 = 0 \<or> hdr_pixel_h O2 = 0
                    then O2\<lparr>hdr_pixel_w := 1, hdr_pixel_h := 1\<rparr> else O2)
          in (True, O3, ASE__mem_seek F' (int_of_size_t (Pos + 128)))))"

record ASE_FrameHeader =
  fh_size :: u32
  fh_magic :: u16
  fh_chunks :: u16
  fh_duration :: u16

definition ASE_FrameHeader_read :: "ASE_ctx \<Rightarrow> ASE_FrameHeader \<times> ASE_ctx" where
  "ASE_FrameHeader_read F0 =
    (case ASE__read32 F0 of (sz, F1) \<Rightarrow>
     case ASE__read16 F1 of (magic, F2) \<Rightarrow>
     case ASE__read16 F2 of (chunks, F3) \<Rightarrow>
     case ASE__read16 F3 of (duration, F4) \<Rightarrow>
       (\<lparr>fh_size = sz, fh_magic = magic, fh_chunks = chunks, fh_duration = duration\<rparr>,
        ASE__mem_skip F4 6))"

text \<open>\<open>ASE_DOC_ChunkHeader\<close>; \<open>start\<close> is a \<open>size_t\<close>, kept exact here (it is never used).\<close>

record ASE_DOC_ChunkHeader =
  ch_size :: u32
  ch_type :: u16
  ch_start :: int

definition ASE_DOC_ChunkHeader_read :: "ASE_ctx \<Rightarrow> ASE_DOC_ChunkHeader \<times> ASE_ctx" where
  "ASE_DOC_ChunkHeader_read F0 =
    (let Pos = ASE__mem_tell F0 in
     case ASE__read32 F0 of (sz, F1) \<Rightarrow>
     case ASE__read16 F1 of (ty, F2) \<Rightarrow>
       (\<lparr>ch_size = sz, ch_type = ty, ch_start = Pos + 6\<rparr>, F2))"

section \<open>Palette chunk: \<open>ASE_Palette_read\<close>\<close>

definition ASE_PALETTE_FLAG_HAS_NAME :: u16 where "ASE_PALETTE_FLAG_HAS_NAME = 1"

definition swap_r_b :: "ASE_Pixel32 \<Rightarrow> ASE_Pixel32" where
  "swap_r_b p = p\<lparr>px_r := px_b p, px_b := px_r p\<rparr>"

text \<open>
  One turn of the loop \<open>for (i = From; i <= To; ++i)\<close>. The color is stored at
  \<open>colors[ncolors++]\<close> and the exchange of red and blue is made at \<open>colors[ncolors - 1]\<close>,
  with the incremented 8-bit count promoted to \<open>int\<close>. When the count has wrapped to \<open>0\<close>
  that index is \<open>-1\<close>, outside the array: the C is undefined there (it exchanges bytes
  of the struct in front of the array); the model leaves the palette as it is, so the
  color stored at index \<open>255\<close> keeps its channels.
\<close>

definition palette_entry :: "ASE_ctx \<Rightarrow> ASE_Palette \<Rightarrow> ASE_Palette \<times> ASE_ctx" where
  "palette_entry F R =
    (case ASE__read16 F of (Flags, F1) \<Rightarrow>
     case ASE__read32 F1 of (v, F2) \<Rightarrow>
       (let R1 = R\<lparr>pal_colors := (pal_colors R)(pal_ncolors R := ASE_Pixel32_of_rgba v),
                     pal_ncolors := pal_ncolors R + 1\<rparr>;
            j = uint (pal_ncolors R1) - 1;
            R2 = (if 0 \<le> j
                  then R1\<lparr>pal_colors := (pal_colors R1)
                         (word_of_int j := swap_r_b (pal_colors R1 (word_of_int j)))\<rparr>
                  else R1);
            F3 = (if Flags AND ASE_PALETTE_FLAG_HAS_NAME \<noteq> 0
                  then snd (ASE_DOC_read_string F2) else F2)
        in (R2, F3)))"

text \<open>
  The loop; \<open>i\<close> and \<open>To\<close> are \<open>int\<close>. (With \<open>To = INT_MAX\<close> the C increment overflows; the
  model counts on.)
\<close>

function palette_loop :: "int \<Rightarrow> int \<Rightarrow> ASE_ctx \<Rightarrow> ASE_Palette \<Rightarrow> ASE_Palette \<times> ASE_ctx" where
  "palette_loop i To F R =
    (if i \<le> To
     then (case palette_entry F R of (R', F') \<Rightarrow> palette_loop (i + 1) To F' R')
     else (R, F))"
  by pat_completeness auto
termination
  by (relation "measure (\<lambda>(i, To, F, R). nat (To + 1 - i))") auto

declare palette_loop.simps [simp del]

definition ASE_Palette_read :: "ASE_ctx \<Rightarrow> ASE_Palette \<Rightarrow> ASE_Palette \<times> ASE_ctx" where
  "ASE_Palette_read F0 Prev =
    (case ASE__read32 F0 of (NewSize, F1) \<Rightarrow>
     case ASE__read32 F1 of (From, F2) \<Rightarrow>
     case ASE__read32 F2 of (To, F3) \<Rightarrow>
       palette_loop (sint From) (sint To) (ASE__mem_skip F3 8) Prev)"

section \<open>Layer chunk: \<open>ASE_Layer_read\<close>\<close>

definition ASE_FILE_LAYER_IMAGE :: u16 where "ASE_FILE_LAYER_IMAGE = 0"
definition ASE_FILE_LAYER_GROUP :: u16 where "ASE_FILE_LAYER_GROUP = 1"
definition ASE_LAYER_VISIBLE :: u16 where "ASE_LAYER_VISIBLE = 1"
definition ASE_LAYER_BACKGROUND :: u16 where "ASE_LAYER_BACKGROUND = 8"

record ASE_LayerHeader =
  lh_flags :: u16
  lh_type :: u16
  lh_child_level :: u16
  lh_default_w :: u16
  lh_default_h :: u16
  lh_blendmode :: u16
  lh_opacity :: u8
  lh_name :: "u8 list"

text \<open>The reads that open \<open>ASE_Layer_read\<close>.\<close>

definition ASE_LayerHeader_read :: "ASE_ctx \<Rightarrow> ASE_LayerHeader \<times> ASE_ctx" where
  "ASE_LayerHeader_read F0 =
    (case ASE__read16 F0 of (flags, F1) \<Rightarrow>
     case ASE__read16 F1 of (ty, F2) \<Rightarrow>
     case ASE__read16 F2 of (child_level, F3) \<Rightarrow>
     case ASE__read16 F3 of (default_w, F4) \<Rightarrow>
     case ASE__read16 F4 of (default_h, F5) \<Rightarrow>
     case ASE__read16 F5 of (blendmode, F6) \<Rightarrow>
     case ASE__read8 F6 of (opacity, F7) \<Rightarrow>
     case ASE_DOC_read_string (ASE__mem_skip F7 3) of (name, F8) \<Rightarrow>
       (\<lparr>lh_flags = flags, lh_type = ty, lh_child_level = child_level,
         lh_default_w = default_w, lh_default_h = default_h, lh_blendmode = blendmode,
         lh_opacity = opacity, lh_name = name\<rparr>, F8))"

text \<open>
  \<open>ASE_DOC_AddLayer\<close>: the array grows by one zeroed layer; the pointer it returns is the
  index \<open>nlayers - 1\<close>.
\<close>

definition ASE_DOC_AddLayer :: "sprite \<Rightarrow> sprite" where
  "ASE_DOC_AddLayer S =
    S\<lparr>spr_nlayers := spr_nlayers S + 1, spr_layers := spr_layers S @ [zero_layer]\<rparr>"

text \<open>
  \<open>Sprite->layers + i\<close>, read. An index outside the array reads memory the model does not
  hold; it gives a zeroed layer.
\<close>

definition layer_at :: "layer list \<Rightarrow> int \<Rightarrow> layer" where
  "layer_at ls i = (if 0 \<le> i \<and> i < int (length ls) then ls ! nat i else zero_layer)"

text \<open>
  The loop \<open>while (Levels--)\<close> of the branch for a shallower layer: it walks \<open>Parent\<close> up
  the parent chain and stops early at a root.
\<close>

fun layer_walk :: "layer list \<Rightarrow> nat \<Rightarrow> int \<Rightarrow> int" where
  "layer_walk ls 0 Parent = Parent"
| "layer_walk ls (Suc Levels) Parent =
    (if lay_parent (layer_at ls Parent) = -1 then Parent
     else layer_walk ls Levels (lay_parent (layer_at ls Parent)))"

text \<open>
  \<open>ASE_DOC_AddLayer\<close> reallocates the array of layers before \<open>ASE_Layer_read\<close> reads
  \<open>(*PrevLayer)->parent\<close>, and \<open>*PrevLayer\<close> is the pointer that the previous call kept: it
  points into the array as it was before the reallocation. Whether \<open>realloc\<close> moves the
  array is the choice of the allocator, which the decoder takes as a parameter. For the
  call that adds the layer \<open>n\<close>, \<open>None\<close> says that the array stayed in place, so that the
  pointer still reaches the previous layer; \<open>Some g\<close> says that it moved: the pointer
  dangles, C gives the read no meaning, and \<open>g\<close> is the value that the read returns.
\<close>

type_synonym realloc_view = "nat \<Rightarrow> int option"

definition realloc_in_place :: realloc_view where
  "realloc_in_place n = None"


text \<open>\<open>(*PrevLayer)->parent\<close>, read in the call that adds the layer \<open>Layer\<close>.\<close>

definition prev_parent :: "realloc_view \<Rightarrow> layer list \<Rightarrow> nat \<Rightarrow> nat \<Rightarrow> int" where
  "prev_parent al ls Layer p =
    (case al Layer of None \<Rightarrow> lay_parent (layer_at ls (int p)) | Some g \<Rightarrow> g)"

text \<open>
  The local \<open>Parent\<close> at the end of that branch, from the value \<open>Parent0\<close> that the read of
  \<open>(*PrevLayer)->parent\<close> gave it.
\<close>

definition layer_walk_parent :: "layer list \<Rightarrow> int \<Rightarrow> int \<Rightarrow> int \<Rightarrow> int" where
  "layer_walk_parent ls Parent0 CurrentLevel child_level =
    (let Parent = Parent0 in
     if Parent \<ge> 0 then layer_walk ls (nat (CurrentLevel - child_level)) Parent else Parent)"

text \<open>
  The rest of \<open>ASE_Layer_read\<close>, after the header is read. \<open>PrevLayer\<close> points into the
  array of layers and is modelled by the index of its layer (\<open>None\<close> is the null
  pointer); what a read through it gives after the array has grown is \<open>prev_parent\<close>.
  Dereferencing a null \<open>PrevLayer\<close> does not return: \<open>None\<close>.
  The result is the returned pointer (an index), the sprite, \<open>*PrevLayer\<close> and
  \<open>*CurrentLevel\<close>.

  In the last branch the source computes \<open>Parent\<close> and never stores it: the layer keeps
  the parent that \<open>memset\<close> gave it, \<open>0\<close>.
\<close>

definition ASE_Layer_decode ::
  "realloc_view \<Rightarrow> ASE_LayerHeader \<Rightarrow> sprite \<Rightarrow> nat option \<Rightarrow> int
     \<Rightarrow> (nat option \<times> sprite \<times> nat option \<times> int) option" where
  "ASE_Layer_decode al H S0 PrevLayer CurrentLevel =
    (if lh_type H = ASE_FILE_LAYER_IMAGE \<or> lh_type H = ASE_FILE_LAYER_GROUP then
       (let S = ASE_DOC_AddLayer S0;
            Layer = nat (spr_nlayers S - 1);
            L0 = zero_layer;
            L1 = (if lh_type H = ASE_FILE_LAYER_IMAGE \<and> lh_flags H AND ASE_LAYER_BACKGROUND = 0
                  then L0\<lparr>lay_blendmode := lh_blendmode H, lay_opacity := lh_opacity H\<rparr>
                  else L0);
            L2 = L1\<lparr>lay_name := Some (lh_name H), lay_flags := lh_flags H,
                     lay_type := lh_type H, lay_child_level := uint (lh_child_level H),
                     lay_visible := uint (lh_flags H AND ASE_LAYER_VISIBLE)\<rparr>;
            child_level = uint (lh_child_level H);
            L3 = (if 0 = child_level then Some (L2\<lparr>lay_parent := -1\<rparr>)
                  else if CurrentLevel = child_level then
                    (case PrevLayer of None \<Rightarrow> None
                     | Some p \<Rightarrow>
                         Some (L2\<lparr>lay_parent := prev_parent al (spr_layers S) Layer p\<rparr>))
                  else if child_level > CurrentLevel then
                    Some (L2\<lparr>lay_parent := spr_nlayers S - 2\<rparr>)
                  else
                    (case PrevLayer of None \<Rightarrow> None
                     | Some p \<Rightarrow>
                         (let Parent = layer_walk_parent (spr_layers S)
                                         (prev_parent al (spr_layers S) Layer p)
                                         CurrentLevel child_level
                          in Some L2)))
        in case L3 of None \<Rightarrow> None
           | Some L \<Rightarrow>
               Some (Some Layer, S\<lparr>spr_layers := (spr_layers S)[Layer := L]\<rparr>,
                     Some Layer, child_level))
     else Some (None, S0, PrevLayer, CurrentLevel))"

definition ASE_Layer_read ::
  "realloc_view \<Rightarrow> ASE_ctx \<Rightarrow> ASE_DOC_Header \<Rightarrow> sprite \<Rightarrow> nat option \<Rightarrow> int
     \<Rightarrow> (nat option \<times> ASE_ctx \<times> sprite \<times> nat option \<times> int) option" where
  "ASE_Layer_read al F Header Sprite PrevLayer CurrentLevel =
    (case ASE_LayerHeader_read F of (H, F') \<Rightarrow>
       (case ASE_Layer_decode al H Sprite PrevLayer CurrentLevel of None \<Rightarrow> None
        | Some (Layer, S', PrevLayer', CurrentLevel') \<Rightarrow>
            Some (Layer, F', S', PrevLayer', CurrentLevel')))"

text \<open>Layer chunks one after the other, as the chunk loop of the decoder feeds them.\<close>

fun layers_decode ::
  "realloc_view \<Rightarrow> ASE_LayerHeader list \<Rightarrow> sprite \<Rightarrow> nat option \<Rightarrow> int
     \<Rightarrow> (sprite \<times> nat option \<times> int) option" where
  "layers_decode al [] S PrevLayer CurrentLevel = Some (S, PrevLayer, CurrentLevel)"
| "layers_decode al (H # Hs) S PrevLayer CurrentLevel =
    (case ASE_Layer_decode al H S PrevLayer CurrentLevel of None \<Rightarrow> None
     | Some (Layer, S', PrevLayer', CurrentLevel') \<Rightarrow>
         layers_decode al Hs S' PrevLayer' CurrentLevel')"

text \<open>Reading results off the state of \<open>layers_decode\<close>.\<close>

definition layer_parents :: "(sprite \<times> nat option \<times> int) option \<Rightarrow> int list option" where
  "layer_parents r = (case r of None \<Rightarrow> None | Some (S, p, c) \<Rightarrow> Some (map lay_parent (spr_layers S)))"

text \<open>
  The \<open>Parent\<close> that the branch for a shallower layer computes when the chunk \<open>H\<close> is read
  in the state \<open>r\<close> (after \<open>ASE_DOC_AddLayer\<close>, as in the source).
\<close>

definition layer_computed_parent ::
  "realloc_view \<Rightarrow> ASE_LayerHeader \<Rightarrow> (sprite \<times> nat option \<times> int) option \<Rightarrow> int option" where
  "layer_computed_parent al H r =
    (case r of
       Some (S, Some p, CurrentLevel) \<Rightarrow>
         (let S1 = ASE_DOC_AddLayer S; Layer = nat (spr_nlayers S1 - 1)
          in Some (layer_walk_parent (spr_layers S1) (prev_parent al (spr_layers S1) Layer p)
                     CurrentLevel (uint (lh_child_level H))))
     | _ \<Rightarrow> None)"

text \<open>A layer chunk of kind \<open>ty\<close> at depth \<open>d\<close>: visible, opaque, without a name.\<close>

definition layer_chunk :: "u16 \<Rightarrow> u16 \<Rightarrow> ASE_LayerHeader" where
  "layer_chunk ty d =
    \<lparr>lh_flags = 1, lh_type = ty, lh_child_level = d, lh_default_w = 0, lh_default_h = 0,
     lh_blendmode = 0, lh_opacity = 255, lh_name = []\<rparr>"

text \<open>
  A palette chunk for the range 5 to 7 with the colors (1,2,3,4), (5,6,7,8) and
  (9,10,11,12), none of them named.
\<close>

definition palette_chunk_5_7 :: "u8 list" where
  "palette_chunk_5_7 =
    [3,0,0,0, 5,0,0,0, 7,0,0,0, 0,0,0,0,0,0,0,0,
     0,0, 1,2,3,4, 0,0, 5,6,7,8, 0,0, 9,10,11,12]"

text \<open>
  A document header with the magic number, depth 32, one frame and a reported color
  count of zero.
\<close>

definition header_bytes :: "u8 list" where
  "header_bytes =
    [0,0,0,0, 0xE0,0xA5, 1,0, 4,0, 4,0, 32,0, 0,0,0,0, 0,0, 0,0,0,0, 0,0,0,0,
     0, 0,0,0, 0,0, 1, 1]"

section \<open>Animation tags: \<open>ASE_get_next_frame\<close>\<close>

definition ASE_LOOP_FORWARD :: int where "ASE_LOOP_FORWARD = 0"
definition ASE_LOOP_REVERSE :: int where "ASE_LOOP_REVERSE = 1"
definition ASE_LOOP_PINGPONG :: int where "ASE_LOOP_PINGPONG = 2"

text \<open>
  \<open>frame\<close> is a C \<open>int\<close>; the fields of the tag are \<open>int16_t\<close> and are promoted to \<open>int\<close>
  (\<open>sint\<close>) in every comparison. The increment and decrement are taken on unbounded
  integers: at \<open>INT_MAX\<close> and \<open>INT_MIN\<close> the C is undefined.
\<close>

definition ASE_get_next_frame :: "('n, 'z) ASE_Tag_scheme \<Rightarrow> int \<Rightarrow> int" where
  "ASE_get_next_frame tag frame =
    (if sint (tag_dir tag) = ASE_LOOP_FORWARD then
       (if frame + 1 > sint (tag_to tag) then sint (tag_from tag) else frame + 1)
     else if sint (tag_dir tag) = ASE_LOOP_REVERSE then
       (if frame - 1 < sint (tag_from tag) then sint (tag_to tag) else frame - 1)
     else if sint (tag_dir tag) = ASE_LOOP_PINGPONG then
       (if frame \<ge> 0 then
          (if frame + 1 > sint (tag_to tag)
           then (if 0 = sint (tag_to tag) - sint (tag_from tag) then 0 else -1)
           else frame + 1)
        else
          (if frame - 1 < sint (tag_from tag) then 0 else frame - 1))
     else frame)"

text \<open>
  The next-frame function as the specification words it: in the ping-pong direction a
  negative index is an offset from \<open>to\<close>, and it is reset to \<open>0\<close> when \<open>to + index\<close> falls
  below \<open>from\<close>.
\<close>

definition next_frame_spec :: "('n, 'z) ASE_Tag_scheme \<Rightarrow> int \<Rightarrow> int" where
  "next_frame_spec tag frame =
    (if sint (tag_dir tag) = ASE_LOOP_FORWARD then
       (if frame + 1 > sint (tag_to tag) then sint (tag_from tag) else frame + 1)
     else if sint (tag_dir tag) = ASE_LOOP_REVERSE then
       (if frame - 1 < sint (tag_from tag) then sint (tag_to tag) else frame - 1)
     else if sint (tag_dir tag) = ASE_LOOP_PINGPONG then
       (if frame \<ge> 0 then
          (if frame + 1 > sint (tag_to tag)
           then (if sint (tag_from tag) = sint (tag_to tag) then 0 else -1)
           else frame + 1)
        else
          (if sint (tag_to tag) + (frame - 1) < sint (tag_from tag) then 0 else frame - 1))
     else frame)"

section \<open>The zlib decoder (stb\_image's, as included in paq\_aseprite.h)\<close>

text \<open>
  A call of the decoder has three outcomes: it returns \<open>1\<close> (\<open>Inr\<close> with the new state), it
  returns \<open>0\<close> (\<open>Inl\<close>: through \<open>stbi__err\<close> with the reason it leaves in
  \<open>stbi__g_failure_reason\<close>, or plainly), or it does not return: an assertion aborts the
  process or a loop runs forever (\<open>None\<close>). \<open>STBI_ASSERT\<close> is \<open>assert\<close>, which the build
  removes with \<open>NDEBUG\<close>: the functions that assert take the flag \<open>nd\<close> (true when
  \<open>NDEBUG\<close> is defined). The assertions \<open>bits <= 16\<close> of \<open>stbi__bit_reverse\<close> and
  \<open>c == 18\<close> of \<open>stbi__compute_huffman_codes\<close> hold wherever they are reached (the callers
  pass \<open>s <= 9\<close> or \<open>16\<close>; \<open>c\<close> is below 19 and not below 16, 16 or 17) and are left out.
\<close>

datatype zfail = Err string | Fail

type_synonym 'a zres = "(zfail + 'a) option"

definition zthen :: "'a zres \<Rightarrow> ('a \<Rightarrow> 'b zres) \<Rightarrow> 'b zres" where
  "zthen m f = Option.bind m (\<lambda>r. case r of Inl e \<Rightarrow> Some (Inl e) | Inr a \<Rightarrow> f a)"

definition zok :: "'a \<Rightarrow> 'a zres" where
  "zok a = Some (Inr a)"

definition stbi__err :: "string \<Rightarrow> 'a zres" where
  "stbi__err str = Some (Inl (Err str))"

text \<open>\<open>STBI_ASSERT\<close>.\<close>

definition STBI_ASSERT :: "bool \<Rightarrow> bool \<Rightarrow> unit zres" where
  "STBI_ASSERT nd x = (if nd \<or> x then zok () else None)"

text \<open>
  C arrays of integers are lists of \<open>int\<close> (the stored values are within the element
  types, so the casts of the source change nothing). An index outside the array is
  undefined in C; the model reads \<open>0\<close> there and drops the write.
\<close>

definition rd :: "int list \<Rightarrow> int \<Rightarrow> int" where
  "rd xs i = (if 0 \<le> i \<and> i < int (length xs) then xs ! nat i else 0)"

definition wr :: "int list \<Rightarrow> int \<Rightarrow> int \<Rightarrow> int list" where
  "wr xs i v = (if 0 \<le> i \<and> i < int (length xs) then xs[nat i := v] else xs)"

subsection \<open>Huffman tables\<close>

definition STBI__ZFAST_BITS :: int where "STBI__ZFAST_BITS = 9"
definition STBI__ZFAST_MASK :: int where "STBI__ZFAST_MASK = 511"

record stbi__zhuffman =
  zh_fast :: "int list"
  zh_firstcode :: "int list"
  zh_maxcode :: "int list"
  zh_firstsymbol :: "int list"
  zh_size :: "int list"
  zh_value :: "int list"

text \<open>A table that was never built: uninitialised in C, zero here.\<close>

definition zhuffman_zero :: stbi__zhuffman where
  "zhuffman_zero = \<lparr>zh_fast = replicate 512 0, zh_firstcode = replicate 16 0,
     zh_maxcode = replicate 17 0, zh_firstsymbol = replicate 16 0,
     zh_size = replicate 288 0, zh_value = replicate 288 0\<rparr>"

definition stbi__bitreverse16 :: "int \<Rightarrow> int" where
  "stbi__bitreverse16 n0 =
    (let n1 = drop_bit 1 (n0 AND 0xAAAA) OR push_bit 1 (n0 AND 0x5555);
         n2 = drop_bit 2 (n1 AND 0xCCCC) OR push_bit 2 (n1 AND 0x3333);
         n3 = drop_bit 4 (n2 AND 0xF0F0) OR push_bit 4 (n2 AND 0x0F0F);
         n4 = drop_bit 8 (n3 AND 0xFF00) OR push_bit 8 (n3 AND 0x00FF)
     in n4)"

definition stbi__bit_reverse :: "int \<Rightarrow> int \<Rightarrow> int" where
  "stbi__bit_reverse v bits = drop_bit (nat (16 - bits)) (stbi__bitreverse16 v)"

text \<open>\<open>stbi__zbuild_huffman\<close>, loop by loop. First the histogram of the code lengths.\<close>

fun zbuild_sizes :: "int list \<Rightarrow> nat list \<Rightarrow> int list \<Rightarrow> int list" where
  "zbuild_sizes sizelist [] sizes = sizes"
| "zbuild_sizes sizelist (i # is) sizes =
    zbuild_sizes sizelist is
      (wr sizes (rd sizelist (int i)) (rd sizes (rd sizelist (int i)) + 1))"

text \<open>
  The loop that assigns the first code of each length, for the lengths in the list; it
  returns at the first length whose codes do not fit.
\<close>

fun zbuild_codes ::
  "int list \<Rightarrow> nat list \<Rightarrow> int \<Rightarrow> int \<Rightarrow> int list \<Rightarrow> stbi__zhuffman
     \<Rightarrow> zfail + (int list \<times> stbi__zhuffman)" where
  "zbuild_codes sizes [] code k next_code z = Inr (next_code, z)"
| "zbuild_codes sizes (i # is) code k next_code z =
    (let next_code1 = wr next_code (int i) code;
         z1 = z\<lparr>zh_firstcode := wr (zh_firstcode z) (int i) (code mod 65536),
                zh_firstsymbol := wr (zh_firstsymbol z) (int i) (k mod 65536)\<rparr>;
         code1 = code + rd sizes (int i)
     in if rd sizes (int i) \<noteq> 0 \<and> code1 - 1 \<ge> 2 ^ i then Inl (Err ''bad codelengths'')
        else zbuild_codes sizes is (code1 * 2) (k + rd sizes (int i)) next_code1
               (z1\<lparr>zh_maxcode := wr (zh_maxcode z1) (int i) (code1 * 2 ^ (16 - i))\<rparr>))"

text \<open>The inner loop \<open>while (j < (1 << STBI__ZFAST_BITS))\<close> that fills the fast table.\<close>

function zbuild_fast :: "int \<Rightarrow> int \<Rightarrow> int \<Rightarrow> int list \<Rightarrow> int list" where
  "zbuild_fast j s fastv fast =
    (if j < 512 then zbuild_fast (j + 2 ^ nat s) s fastv (wr fast j fastv) else fast)"
  by pat_completeness auto
termination
  by (relation "measure (\<lambda>(j, s, fastv, fast). nat (512 - j))") auto

declare zbuild_fast.simps [simp del]

text \<open>The loop over the symbols.\<close>

fun zbuild_symbols ::
  "int list \<Rightarrow> nat list \<Rightarrow> int list \<Rightarrow> stbi__zhuffman \<Rightarrow> stbi__zhuffman" where
  "zbuild_symbols sizelist [] next_code z = z"
| "zbuild_symbols sizelist (i # is) next_code z =
    (let s = rd sizelist (int i) in
     if s \<noteq> 0 then
       (let c = rd next_code s - rd (zh_firstcode z) s + rd (zh_firstsymbol z) s;
            fastv = (push_bit 9 s OR int i) mod 65536;
            z1 = z\<lparr>zh_size := wr (zh_size z) c (s mod 256),
                   zh_value := wr (zh_value z) c (int i mod 65536)\<rparr>;
            z2 = (if s \<le> STBI__ZFAST_BITS
                  then z1\<lparr>zh_fast := zbuild_fast (stbi__bit_reverse (rd next_code s) s) s fastv
                                        (zh_fast z1)\<rparr>
                  else z1)
        in zbuild_symbols sizelist is (wr next_code s (rd next_code s + 1)) z2)
     else zbuild_symbols sizelist is next_code z)"

definition stbi__zbuild_huffman :: "stbi__zhuffman \<Rightarrow> int list \<Rightarrow> nat \<Rightarrow> zfail + stbi__zhuffman" where
  "stbi__zbuild_huffman z sizelist num =
    (let sizes0 = zbuild_sizes sizelist [0..<num] (replicate 17 0);
         z0 = z\<lparr>zh_fast := replicate 512 0\<rparr>;
         sizes = wr sizes0 0 0
     in if list_ex (\<lambda>i. rd sizes (int i) > 2 ^ i) [1..<16] then Inl (Err ''bad sizes'')
        else (case zbuild_codes sizes [1..<16] 0 0 (replicate 16 0) z0 of
                Inl e \<Rightarrow> Inl e
              | Inr (next_code, z1) \<Rightarrow>
                  Inr (zbuild_symbols sizelist [0..<num] next_code
                         (z1\<lparr>zh_maxcode := wr (zh_maxcode z1) 16 0x10000\<rparr>))))"


subsection \<open>The bit reader\<close>

text \<open>
  \<open>stbi__zbuf\<close>. The input pointers are the list of the bytes from \<open>zbuffer\<close> to
  \<open>zbuffer_end\<close>. The output pointers are the bytes written so far (\<open>zout_start\<close> to
  \<open>zout\<close>), the rest of the buffer as it stands (\<open>zout\<close> to \<open>zout_end\<close>) and the room
  \<open>zout_end - zout\<close>, which is the length of the rest unless the caller gave a negative
  size.
\<close>

record stbi__zbuf =
  zb_zbuffer :: "u8 list"
  zb_num_bits :: int
  zb_code_buffer :: u32
  zb_zout :: "u8 list"
  zb_zout_rest :: "u8 list"
  zb_zout_room :: int
  zb_z_expandable :: bool
  zb_z_length :: stbi__zhuffman
  zb_z_distance :: stbi__zhuffman

definition stbi__zget8 :: "stbi__zbuf \<Rightarrow> u8 \<times> stbi__zbuf" where
  "stbi__zget8 z =
    (case zb_zbuffer z of [] \<Rightarrow> (0, z) | b # bs \<Rightarrow> (b, z\<lparr>zb_zbuffer := bs\<rparr>))"

text \<open>
  \<open>stbi__fill_bits\<close>, a \<open>do ... while (num_bits <= 24)\<close>. The shifts are by \<open>num_bits\<close>,
  which is between 0 and 24 here whenever the reader started from \<open>stbi__parse_zlib\<close>.
\<close>

function stbi__fill_bits :: "bool \<Rightarrow> stbi__zbuf \<Rightarrow> stbi__zbuf zres" where
  "stbi__fill_bits nd z =
    (if nd \<or> uint (zb_code_buffer z) < 2 ^ nat (zb_num_bits z) then
       (case stbi__zget8 z of (b, z1) \<Rightarrow>
          (let z2 = z1\<lparr>zb_code_buffer :=
                         zb_code_buffer z1 OR push_bit (nat (zb_num_bits z1)) (ucast b),
                       zb_num_bits := zb_num_bits z1 + 8\<rparr>
           in if zb_num_bits z2 \<le> 24 then stbi__fill_bits nd z2 else zok z2))
     else None)"
  by pat_completeness auto
termination
  by (relation "measure (\<lambda>(nd, z). nat (25 - zb_num_bits z))")
     (auto simp add: stbi__zget8_def split: list.splits)

declare stbi__fill_bits.simps [simp del]

definition stbi__zreceive :: "bool \<Rightarrow> stbi__zbuf \<Rightarrow> int \<Rightarrow> (nat \<times> stbi__zbuf) zres" where
  "stbi__zreceive nd z n =
    zthen (if zb_num_bits z < n then stbi__fill_bits nd z else zok z)
      (\<lambda>z1. zok (unat (zb_code_buffer z1 AND (2 ^ nat n - 1)),
                  z1\<lparr>zb_code_buffer := drop_bit (nat n) (zb_code_buffer z1),
                     zb_num_bits := zb_num_bits z1 - n\<rparr>))"

text \<open>
  The search \<open>for (s = STBI__ZFAST_BITS + 1; ; ++s) if (k < z->maxcode[s]) break;\<close>. A built
  table has \<open>maxcode[16] = 0x10000\<close> and stops it; past 16 the C reads outside the array.
\<close>

function zslow_len :: "int list \<Rightarrow> int \<Rightarrow> int \<Rightarrow> int option" where
  "zslow_len maxcode k s =
    (if s > 16 then None
     else if k < rd maxcode s then Some s
     else zslow_len maxcode k (s + 1))"
  by pat_completeness auto
termination
  by (relation "measure (\<lambda>(maxcode, k, s). nat (17 - s))") auto

declare zslow_len.simps [simp del]

text \<open>
  The decoders return the symbol, or \<open>-1\<close> for an invalid code. \<open>code_buffer\<close> is passed
  to \<open>stbi__bit_reverse\<close> as an \<open>int\<close>, of which only the low 16 bits are used.
\<close>

definition stbi__zhuffman_decode_slowpath ::
  "bool \<Rightarrow> stbi__zbuf \<Rightarrow> stbi__zhuffman \<Rightarrow> (int \<times> stbi__zbuf) zres" where
  "stbi__zhuffman_decode_slowpath nd a z =
    (let k = stbi__bit_reverse (uint (zb_code_buffer a)) 16 in
     case zslow_len (zh_maxcode z) k (STBI__ZFAST_BITS + 1) of None \<Rightarrow> None
     | Some s \<Rightarrow>
         if s = 16 then zok (-1, a)
         else (let b = drop_bit (nat (16 - s)) k - rd (zh_firstcode z) s + rd (zh_firstsymbol z) s
               in if nd \<or> rd (zh_size z) b = s
                  then zok (rd (zh_value z) b,
                            a\<lparr>zb_code_buffer := drop_bit (nat s) (zb_code_buffer a),
                              zb_num_bits := zb_num_bits a - s\<rparr>)
                  else None))"

definition stbi__zhuffman_decode ::
  "bool \<Rightarrow> stbi__zbuf \<Rightarrow> stbi__zhuffman \<Rightarrow> (int \<times> stbi__zbuf) zres" where
  "stbi__zhuffman_decode nd a0 z =
    zthen (if zb_num_bits a0 < 16 then stbi__fill_bits nd a0 else zok a0)
      (\<lambda>a. let b = rd (zh_fast z) (uint (zb_code_buffer a) AND STBI__ZFAST_MASK) in
            if b \<noteq> 0 then
              (let s = drop_bit 9 b
               in zok (b AND 511,
                       a\<lparr>zb_code_buffer := drop_bit (nat s) (zb_code_buffer a),
                         zb_num_bits := zb_num_bits a - s\<rparr>))
            else stbi__zhuffman_decode_slowpath nd a z)"

subsection \<open>The output buffer\<close>

text \<open>
  The loop \<open>while (cur + n > limit) limit *= 2\<close> of \<open>stbi__zexpand\<close>: it does not end from a
  limit of zero, and overflows from a negative one.
\<close>

function zexpand_limit :: "int \<Rightarrow> int \<Rightarrow> int option" where
  "zexpand_limit need limit =
    (if need > limit then (if limit \<le> 0 then None else zexpand_limit need (limit * 2))
     else Some limit)"
  by pat_completeness auto
termination
  by (relation "measure (\<lambda>(need, limit). nat (need - limit))") auto

declare zexpand_limit.simps [simp del]

text \<open>
  \<open>stbi__zexpand\<close>; the reallocation is taken to succeed, and the new part of the buffer
  to hold zeros.
\<close>

definition stbi__zexpand :: "stbi__zbuf \<Rightarrow> int \<Rightarrow> stbi__zbuf zres" where
  "stbi__zexpand z n =
    (if \<not> zb_z_expandable z then stbi__err ''output buffer limit''
     else (let cur = int (length (zb_zout z)); old_limit = cur + zb_zout_room z in
           case zexpand_limit (cur + n) old_limit of None \<Rightarrow> None
           | Some limit \<Rightarrow>
               zok (z\<lparr>zb_zout_rest := zb_zout_rest z @ replicate (nat (limit - old_limit)) 0,
                      zb_zout_room := limit - cur\<rparr>)))"

text \<open>\<open>*zout++ = v\<close>.\<close>

definition zput :: "stbi__zbuf \<Rightarrow> u8 \<Rightarrow> stbi__zbuf" where
  "zput z v = z\<lparr>zb_zout := zb_zout z @ [v], zb_zout_rest := tl (zb_zout_rest z),
                zb_zout_room := zb_zout_room z - 1\<rparr>"

text \<open>
  The byte at \<open>zout - dist\<close>: one of the bytes written when \<open>dist\<close> is at least 1, the byte
  under the cursor when it is 0.
\<close>

definition zback :: "stbi__zbuf \<Rightarrow> int \<Rightarrow> u8" where
  "zback z dist =
    (if 0 < dist \<and> dist \<le> int (length (zb_zout z))
     then zb_zout z ! nat (int (length (zb_zout z)) - dist)
     else (case zb_zout_rest z of [] \<Rightarrow> 0 | b # bs \<Rightarrow> b))"

text \<open>The copy loops \<open>do *zout++ = v; while (--len)\<close> and \<open>do *zout++ = *p++; while (--len)\<close>.\<close>

fun zfill :: "nat \<Rightarrow> u8 \<Rightarrow> stbi__zbuf \<Rightarrow> stbi__zbuf" where
  "zfill 0 v z = z"
| "zfill (Suc len) v z = zfill len v (zput z v)"

fun zcopy :: "nat \<Rightarrow> int \<Rightarrow> stbi__zbuf \<Rightarrow> stbi__zbuf" where
  "zcopy 0 dist z = z"
| "zcopy (Suc len) dist z = zcopy len dist (zput z (zback z dist))"

subsection \<open>Blocks\<close>

definition stbi__zlength_base :: "int list" where
  "stbi__zlength_base =
    [3,4,5,6,7,8,9,10,11,13, 15,17,19,23,27,31,35,43,51,59,
     67,83,99,115,131,163,195,227,258,0,0]"

definition stbi__zlength_extra :: "int list" where
  "stbi__zlength_extra =
    [0,0,0,0,0,0,0,0,1,1,1,1,2,2,2,2,3,3,3,3,4,4,4,4,5,5,5,5,0,0,0]"

definition stbi__zdist_base :: "int list" where
  "stbi__zdist_base =
    [1,2,3,4,5,7,9,13,17,25,33,49,65,97,129,193,
     257,385,513,769,1025,1537,2049,3073,4097,6145,8193,12289,16385,24577,0,0]"

definition stbi__zdist_extra :: "int list" where
  "stbi__zdist_extra =
    [0,0,0,0,1,1,2,2,3,3,4,4,5,5,6,6,7,7,8,8,9,9,10,10,11,11,12,12,13,13,0,0]"

text \<open>A base value plus its extra bits, when the table asks for any.\<close>

definition zextra ::
  "bool \<Rightarrow> stbi__zbuf \<Rightarrow> int \<Rightarrow> int \<Rightarrow> (int \<times> stbi__zbuf) zres" where
  "zextra nd a base extra =
    (if extra \<noteq> 0 then zthen (stbi__zreceive nd a extra) (\<lambda>(k, a'). zok (base + int k, a'))
     else zok (base, a))"

lemma zthen_mono [partial_function_mono]:
  assumes mf: "mono_option B" and mg: "\<And>y. mono_option (\<lambda>f. C y f)"
  shows "mono_option (\<lambda>f. zthen (B f) (\<lambda>y. C y f))"
  unfolding zthen_def
proof (rule bind_mono [OF mf])
  fix y :: "zfail + 'c"
  show "mono_option (\<lambda>f. case y of Inl e \<Rightarrow> Some (Inl e) | Inr a \<Rightarrow> C a f)"
    by (cases y) (simp_all add: mg option.const_mono)
qed

text \<open>
  \<open>stbi__parse_huffman_block\<close>. The loop ends at the end-of-block symbol or at an error;
  on a stream that never brings either it runs forever (the length symbols 286 and 287
  copy nothing, and past the end of the input the reader supplies zero bits).
\<close>

partial_function (option) stbi__parse_huffman_block ::
  "bool \<Rightarrow> stbi__zbuf \<Rightarrow> (zfail + stbi__zbuf) option" where
  "stbi__parse_huffman_block nd a =
    zthen (stbi__zhuffman_decode nd a (zb_z_length a))
      (\<lambda>(z, a1).
        if z < 256 then
          (if z < 0 then stbi__err ''bad huffman code''
           else zthen (if zb_zout_room a1 \<le> 0 then stbi__zexpand a1 1 else zok a1)
                  (\<lambda>a2. stbi__parse_huffman_block nd (zput a2 (word_of_int z))))
        else if z = 256 then zok a1
        else
          zthen (zextra nd a1 (rd stbi__zlength_base (z - 257))
                   (rd stbi__zlength_extra (z - 257)))
            (\<lambda>(len, a2).
              zthen (stbi__zhuffman_decode nd a2 (zb_z_distance a2))
                (\<lambda>(zd, a3).
                  if zd < 0 then stbi__err ''bad huffman code''
                  else
                    zthen (zextra nd a3 (rd stbi__zdist_base zd) (rd stbi__zdist_extra zd))
                      (\<lambda>(dist, a4).
                        if int (length (zb_zout a4)) < dist then stbi__err ''bad dist''
                        else
                          zthen (if len > zb_zout_room a4 then stbi__zexpand a4 len
                                 else zok a4)
                            (\<lambda>a5. stbi__parse_huffman_block nd
                                    (if dist = 1 then zfill (nat len) (zback a5 1) a5
                                     else zcopy (nat len) dist a5))))))"


subsection \<open>Dynamic code tables\<close>

definition length_dezigzag :: "int list" where
  "length_dezigzag = [16,17,18,0,8,7,9,6,10,5,11,4,12,3,13,2,14,1,15]"

text \<open>The loop that reads the \<open>hclen\<close> lengths of the code-length code.\<close>

fun zcodelength_sizes ::
  "bool \<Rightarrow> nat list \<Rightarrow> int list \<Rightarrow> stbi__zbuf \<Rightarrow> (int list \<times> stbi__zbuf) zres" where
  "zcodelength_sizes nd [] sizes a = zok (sizes, a)"
| "zcodelength_sizes nd (i # is) sizes a =
    zthen (stbi__zreceive nd a 3)
      (\<lambda>(s, a'). zcodelength_sizes nd is (wr sizes (rd length_dezigzag (int i)) (int s)) a')"

text \<open>\<open>memset(lencodes + n, v, c)\<close>.\<close>

fun zmemset :: "int list \<Rightarrow> int \<Rightarrow> int \<Rightarrow> nat \<Rightarrow> int list" where
  "zmemset xs n v 0 = xs"
| "zmemset xs n v (Suc c) = zmemset (wr xs n v) (n + 1) v c"

text \<open>
  The loop \<open>while (n < hlit + hdist)\<close> that decodes the code lengths; it returns \<open>n\<close> and
  \<open>lencodes\<close>. A repeat code as first symbol reads \<open>lencodes[-1]\<close>.
\<close>

function zlencodes ::
  "bool \<Rightarrow> stbi__zhuffman \<Rightarrow> int \<Rightarrow> int \<Rightarrow> int list \<Rightarrow> stbi__zbuf
     \<Rightarrow> (int \<times> int list \<times> stbi__zbuf) zres" where
  "zlencodes nd z_codelength ntot n lencodes a =
    (if n < ntot then
       (case stbi__zhuffman_decode nd a z_codelength of None \<Rightarrow> None
        | Some (Inl e) \<Rightarrow> Some (Inl e)
        | Some (Inr (c, a1)) \<Rightarrow>
            if c < 0 \<or> c \<ge> 19 then stbi__err ''bad codelengths''
            else if c < 16 then zlencodes nd z_codelength ntot (n + 1) (wr lencodes n c) a1
            else if c = 16 then
              (case stbi__zreceive nd a1 2 of None \<Rightarrow> None
               | Some (Inl e) \<Rightarrow> Some (Inl e)
               | Some (Inr (k, a2)) \<Rightarrow>
                   zlencodes nd z_codelength ntot (n + (int k + 3))
                     (zmemset lencodes n (rd lencodes (n - 1)) (k + 3)) a2)
            else if c = 17 then
              (case stbi__zreceive nd a1 3 of None \<Rightarrow> None
               | Some (Inl e) \<Rightarrow> Some (Inl e)
               | Some (Inr (k, a2)) \<Rightarrow>
                   zlencodes nd z_codelength ntot (n + (int k + 3))
                     (zmemset lencodes n 0 (k + 3)) a2)
            else
              (case stbi__zreceive nd a1 7 of None \<Rightarrow> None
               | Some (Inl e) \<Rightarrow> Some (Inl e)
               | Some (Inr (k, a2)) \<Rightarrow>
                   zlencodes nd z_codelength ntot (n + (int k + 11))
                     (zmemset lencodes n 0 (k + 11)) a2))
     else zok (n, lencodes, a))"
  by pat_completeness auto
termination
  by (relation "measure (\<lambda>(nd, z, ntot, n, lencodes, a). nat (ntot - n))") auto

declare zlencodes.simps [simp del]

definition stbi__compute_huffman_codes :: "bool \<Rightarrow> stbi__zbuf \<Rightarrow> stbi__zbuf zres" where
  "stbi__compute_huffman_codes nd a0 =
    zthen (stbi__zreceive nd a0 5) (\<lambda>(k1, a1).
    zthen (stbi__zreceive nd a1 5) (\<lambda>(k2, a2).
    zthen (stbi__zreceive nd a2 4) (\<lambda>(k3, a3).
      let hlit = int k1 + 257; hdist = int k2 + 1; hclen = int k3 + 4 in
      zthen (zcodelength_sizes nd [0..<nat hclen] (replicate 19 0) a3) (\<lambda>(codelength_sizes, a4).
        case stbi__zbuild_huffman zhuffman_zero codelength_sizes 19 of
          Inl e \<Rightarrow> Some (Inl e)
        | Inr z_codelength \<Rightarrow>
            zthen (zlencodes nd z_codelength (hlit + hdist) 0 (replicate 455 0) a4)
              (\<lambda>(n, lencodes, a5).
                if n \<noteq> hlit + hdist then stbi__err ''bad codelengths''
                else
                  (case stbi__zbuild_huffman (zb_z_length a5) lencodes (nat hlit) of
                     Inl e \<Rightarrow> Some (Inl e)
                   | Inr zl \<Rightarrow>
                       (case stbi__zbuild_huffman (zb_z_distance a5)
                               (drop (nat hlit) lencodes) (nat hdist) of
                          Inl e \<Rightarrow> Some (Inl e)
                        | Inr zd \<Rightarrow> zok (a5\<lparr>zb_z_length := zl, zb_z_distance := zd\<rparr>))))))))"

subsection \<open>Stored blocks\<close>

text \<open>The loop \<open>while (a->num_bits > 0)\<close> that drains whole bytes of the bit buffer.\<close>

function zdrain :: "stbi__zbuf \<Rightarrow> int list \<Rightarrow> int \<Rightarrow> stbi__zbuf \<times> int list \<times> int" where
  "zdrain a header k =
    (if zb_num_bits a > 0
     then zdrain (a\<lparr>zb_code_buffer := drop_bit 8 (zb_code_buffer a),
                    zb_num_bits := zb_num_bits a - 8\<rparr>)
            (wr header k (uint (zb_code_buffer a AND 255))) (k + 1)
     else (a, header, k))"
  by pat_completeness auto
termination
  by (relation "measure (\<lambda>(a, header, k). nat (zb_num_bits a))") auto

declare zdrain.simps [simp del]

text \<open>The loop \<open>while (k < 4) header[k++] = stbi__zget8(a)\<close>.\<close>

function zheader_rest :: "stbi__zbuf \<Rightarrow> int list \<Rightarrow> int \<Rightarrow> stbi__zbuf \<times> int list" where
  "zheader_rest a header k =
    (if k < 4
     then (case stbi__zget8 a of (b, a') \<Rightarrow> zheader_rest a' (wr header k (uint b)) (k + 1))
     else (a, header))"
  by pat_completeness auto
termination
  by (relation "measure (\<lambda>(a, header, k). nat (4 - k))") auto

declare zheader_rest.simps [simp del]

text \<open>\<open>memcpy(a->zout, a->zbuffer, len)\<close> with the two pointers moved on.\<close>

fun zstore :: "nat \<Rightarrow> stbi__zbuf \<Rightarrow> stbi__zbuf" where
  "zstore 0 a = a"
| "zstore (Suc len) a =
    (case stbi__zget8 a of (b, a') \<Rightarrow> zstore len (zput a' b))"

definition stbi__parse_uncompressed_block :: "bool \<Rightarrow> stbi__zbuf \<Rightarrow> stbi__zbuf zres" where
  "stbi__parse_uncompressed_block nd a0 =
    zthen (if zb_num_bits a0 AND 7 \<noteq> 0
           then zthen (stbi__zreceive nd a0 (zb_num_bits a0 AND 7)) (\<lambda>(k, a'). zok a')
           else zok a0)
      (\<lambda>a1. case zdrain a1 (replicate 4 0) 0 of (a2, header2, k) \<Rightarrow>
        if nd \<or> zb_num_bits a2 = 0 then
          (case zheader_rest a2 header2 k of (a3, header) \<Rightarrow>
            (let len = rd header 1 * 256 + rd header 0;
                 nlen = rd header 3 * 256 + rd header 2
             in if nlen \<noteq> (len XOR 0xffff) then stbi__err ''zlib corrupt''
                else if len > int (length (zb_zbuffer a3)) then stbi__err ''read past buffer''
                else zthen (if len > zb_zout_room a3 then stbi__zexpand a3 len else zok a3)
                       (\<lambda>a4. zok (zstore (nat len) a4))))
        else None)"

subsection \<open>The stream\<close>

definition stbi__parse_zlib_header :: "stbi__zbuf \<Rightarrow> stbi__zbuf zres" where
  "stbi__parse_zlib_header a0 =
    (case stbi__zget8 a0 of (cmf, a1) \<Rightarrow>
     case stbi__zget8 a1 of (flg, a2) \<Rightarrow>
       (let cm = uint cmf AND 15 in
        if (uint cmf * 256 + uint flg) mod 31 \<noteq> 0 then stbi__err ''bad zlib header''
        else if uint flg AND 32 \<noteq> 0 then stbi__err ''no preset dict''
        else if cm \<noteq> 8 then stbi__err ''bad compression''
        else zok a2))"

text \<open>The tables that \<open>stbi__init_zdefaults\<close> fills.\<close>

definition stbi__zdefault_length :: "int list" where
  "stbi__zdefault_length = replicate 144 8 @ replicate 112 9 @ replicate 24 7 @ replicate 8 8"

definition stbi__zdefault_distance :: "int list" where
  "stbi__zdefault_distance = replicate 32 5"

text \<open>The body of the \<open>do ... while (!final)\<close> of \<open>stbi__parse_zlib\<close>, and the loop.\<close>

partial_function (option) zblocks :: "bool \<Rightarrow> stbi__zbuf \<Rightarrow> (zfail + stbi__zbuf) option" where
  "zblocks nd a0 =
    zthen (stbi__zreceive nd a0 1) (\<lambda>(final, a1).
    zthen (stbi__zreceive nd a1 2) (\<lambda>(ty, a2).
    zthen
      (if ty = 0 then stbi__parse_uncompressed_block nd a2
       else if ty = 3 then Some (Inl Fail)
       else
         zthen
           (if ty = 1 then
              (case stbi__zbuild_huffman (zb_z_length a2) stbi__zdefault_length 288 of
                 Inl e \<Rightarrow> Some (Inl e)
               | Inr zl \<Rightarrow>
                   (case stbi__zbuild_huffman (zb_z_distance a2) stbi__zdefault_distance 32 of
                      Inl e \<Rightarrow> Some (Inl e)
                    | Inr zd \<Rightarrow> zok (a2\<lparr>zb_z_length := zl, zb_z_distance := zd\<rparr>)))
            else stbi__compute_huffman_codes nd a2)
           (\<lambda>a3. stbi__parse_huffman_block nd a3))
      (\<lambda>a4. if final = 0 then zblocks nd a4 else zok a4)))"

definition stbi__parse_zlib :: "bool \<Rightarrow> stbi__zbuf \<Rightarrow> bool \<Rightarrow> stbi__zbuf zres" where
  "stbi__parse_zlib nd a parse_header =
    zthen (if parse_header then stbi__parse_zlib_header a else zok a)
      (\<lambda>a1. zblocks nd (a1\<lparr>zb_num_bits := 0, zb_code_buffer := 0\<rparr>))"

text \<open>
  \<open>stbi__do_zlib\<close> on a \<open>stbi__zbuf\<close> whose input is set: \<open>obuf\<close> is the content of the
  output buffer, \<open>olen\<close> the size the caller states for it.
\<close>

definition stbi__do_zlib ::
  "bool \<Rightarrow> stbi__zbuf \<Rightarrow> u8 list \<Rightarrow> int \<Rightarrow> bool \<Rightarrow> bool \<Rightarrow> stbi__zbuf zres" where
  "stbi__do_zlib nd a obuf olen exp parse_header =
    stbi__parse_zlib nd
      (a\<lparr>zb_zout := [], zb_zout_rest := obuf, zb_zout_room := olen, zb_z_expandable := exp\<rparr>)
      parse_header"

text \<open>
  A \<open>stbi__zbuf\<close> on the stack with its input set: the other fields are uninitialised in C
  and zero here.
\<close>

definition zbuf_on :: "u8 list \<Rightarrow> stbi__zbuf" where
  "zbuf_on ibuffer =
    \<lparr>zb_zbuffer = ibuffer, zb_num_bits = 0, zb_code_buffer = 0, zb_zout = [], zb_zout_rest = [],
     zb_zout_room = 0, zb_z_expandable = False, zb_z_length = zhuffman_zero,
     zb_z_distance = zhuffman_zero\<rparr>"

text \<open>
  \<open>stbi_zlib_decode_buffer\<close>: the return value (the number of bytes written, or \<open>-1\<close>)
  and the output buffer after the call. The input is the list of its \<open>ilen\<close> bytes. A
  failed call leaves in the buffer whatever it wrote before it failed; the model does
  not follow that content (the only caller releases the buffer) and gives the buffer
  back as it was.
\<close>

definition stbi_zlib_decode_buffer ::
  "bool \<Rightarrow> u8 list \<Rightarrow> int \<Rightarrow> u8 list \<Rightarrow> (int \<times> u8 list) option" where
  "stbi_zlib_decode_buffer nd obuffer olen ibuffer =
    (case stbi__do_zlib nd (zbuf_on ibuffer) obuffer olen False True of
       None \<Rightarrow> None
     | Some (Inl e) \<Rightarrow> Some (-1, obuffer)
     | Some (Inr a) \<Rightarrow> Some (int (length (zb_zout a)), zb_zout a @ zb_zout_rest a))"

section \<open>Cel chunk: \<open>ASE_Cel_read\<close>\<close>

definition ASE_FILE_RAW_CEL :: u16 where "ASE_FILE_RAW_CEL = 0"
definition ASE_FILE_LINK_CEL :: u16 where "ASE_FILE_LINK_CEL = 1"
definition ASE_FILE_COMPRESSED_CEL :: u16 where "ASE_FILE_COMPRESSED_CEL = 2"

text \<open>
  \<open>ASE_MALLOC\<close> for a buffer of \<open>n\<close> bytes, \<open>n\<close> an \<open>int\<close> expression of the source. The
  block is taken to hold zeros (in C its content is indeterminate) and the allocation to
  succeed, except for a negative \<open>n\<close>: converted to \<open>size_t\<close> it asks for more than
  any allocator gives, and the result is the null pointer.
\<close>

definition ASE_MALLOC :: "int \<Rightarrow> u8 list option" where
  "ASE_MALLOC n = (if n < 0 then None else Some (replicate (nat n) 0))"

definition ASE_DOC_AddFrame :: "sprite \<Rightarrow> sprite" where
  "ASE_DOC_AddFrame S =
    S\<lparr>spr_nframes := spr_nframes S + 1, spr_frames := spr_frames S @ [zero_frame]\<rparr>"

definition ASE_DOC_AddCel :: "frame \<Rightarrow> frame" where
  "ASE_DOC_AddCel S = S\<lparr>frm_ncels := frm_ncels S + 1, frm_cels := frm_cels S @ [zero_cel]\<rparr>"

definition ASE_DOC_AddTag :: "sprite \<Rightarrow> sprite" where
  "ASE_DOC_AddTag S = S\<lparr>spr_ntags := spr_ntags S + 1, spr_tags := spr_tags S @ [zero_tag]\<rparr>"

text \<open>
  The three \<open>ASE_DOC_read_raw_image_*\<close> differ in the bytes per pixel only. The area
  \<open>Cel->w * Cel->h\<close> multiplies the stored 16-bit signed fields; the products are taken on
  unbounded integers (above \<open>2 ^ 31\<close> the C overflows). Nothing is read, and nothing
  written through the pointer, unless the area is positive.
\<close>

definition read_raw_image :: "int \<Rightarrow> ASE_ctx \<Rightarrow> cel \<Rightarrow> cel \<times> ASE_ctx" where
  "read_raw_image bpp F Cel =
    (let n = sint (cel_w Cel) * sint (cel_h Cel) in
     case ASE_MALLOC (n * bpp) of
       None \<Rightarrow> (Cel\<lparr>cel_data := None\<rparr>, F)
     | Some buf \<Rightarrow>
         (case read_bytes (nat (n * bpp)) F of
            (bs, F') \<Rightarrow> (Cel\<lparr>cel_data := Some bs\<rparr>, F')))"

definition ASE_DOC_read_raw_image_rgba :: "ASE_ctx \<Rightarrow> cel \<Rightarrow> cel \<times> ASE_ctx" where
  "ASE_DOC_read_raw_image_rgba = read_raw_image 4"

definition ASE_DOC_read_raw_image_grayscale :: "ASE_ctx \<Rightarrow> cel \<Rightarrow> cel \<times> ASE_ctx" where
  "ASE_DOC_read_raw_image_grayscale = read_raw_image 2"

definition ASE_DOC_read_raw_image_indexed :: "ASE_ctx \<Rightarrow> cel \<Rightarrow> cel \<times> ASE_ctx" where
  "ASE_DOC_read_raw_image_indexed = read_raw_image 1"

text \<open>
  The three \<open>ASE_DOC_read_compressed_*\<close>, likewise. \<open>EndPos\<close> is a \<open>size_t\<close> and \<open>isize\<close> an
  \<open>int\<close>. The input buffer holds the \<open>isize\<close> bytes read (none when \<open>isize\<close> is not
  positive); the output buffer is allocated for \<open>osize\<close> bytes. When the decoder
  returns \<open>-1\<close> the output buffer is released and \<open>Cel->data\<close> is not touched; otherwise
  the cel gets the buffer.
\<close>

definition read_compressed ::
  "bool \<Rightarrow> int \<Rightarrow> ASE_ctx \<Rightarrow> cel \<Rightarrow> int \<Rightarrow> (cel \<times> ASE_ctx) option" where
  "read_compressed nd bpp F Cel EndPos =
    (let isize = int_of_size_t (EndPos - ASE__mem_tell F) in
     case read_bytes (nat isize) F of (ibuffer, F') \<Rightarrow>
       (let osize = sint (cel_w Cel) * sint (cel_h Cel) * bpp;
            obuffer = ASE_MALLOC osize
        in case stbi_zlib_decode_buffer nd (case obuffer of None \<Rightarrow> [] | Some b \<Rightarrow> b) osize
                  ibuffer of
             None \<Rightarrow> None
           | Some (Result, buf) \<Rightarrow>
               if -1 = Result then Some (Cel, F')
               else Some (Cel\<lparr>cel_data := (case obuffer of None \<Rightarrow> None | Some b \<Rightarrow> Some buf)\<rparr>,
                          F')))"

definition ASE_DOC_read_compressed_rgba ::
  "bool \<Rightarrow> ASE_ctx \<Rightarrow> cel \<Rightarrow> int \<Rightarrow> (cel \<times> ASE_ctx) option" where
  "ASE_DOC_read_compressed_rgba nd = read_compressed nd 4"

definition ASE_DOC_read_compressed_grayscale ::
  "bool \<Rightarrow> ASE_ctx \<Rightarrow> cel \<Rightarrow> int \<Rightarrow> (cel \<times> ASE_ctx) option" where
  "ASE_DOC_read_compressed_grayscale nd = read_compressed nd 2"

definition ASE_DOC_read_compressed_indexed ::
  "bool \<Rightarrow> ASE_ctx \<Rightarrow> cel \<Rightarrow> int \<Rightarrow> (cel \<times> ASE_ctx) option" where
  "ASE_DOC_read_compressed_indexed nd = read_compressed nd 1"

text \<open>The header of the chunk, as the first reads of \<open>ASE_Cel_read\<close> take it.\<close>

record ASE_CelHeader =
  clh_layer :: u16
  clh_x :: u16
  clh_y :: u16
  clh_opacity :: u8
  clh_type :: u16

definition ASE_CelHeader_read :: "ASE_ctx \<Rightarrow> ASE_CelHeader \<times> ASE_ctx" where
  "ASE_CelHeader_read F0 =
    (case ASE__read16 F0 of (layer, F1) \<Rightarrow>
     case ASE__read16 F1 of (x, F2) \<Rightarrow>
     case ASE__read16 F2 of (y, F3) \<Rightarrow>
     case ASE__read8 F3 of (opacity, F4) \<Rightarrow>
     case ASE__read16 F4 of (ty, F5) \<Rightarrow>
       (\<lparr>clh_layer = layer, clh_x = x, clh_y = y, clh_opacity = opacity, clh_type = ty\<rparr>,
        ASE__mem_skip F5 7))"

text \<open>\<open>S->frames + i\<close>, read; a zeroed frame outside the array.\<close>

definition frame_of :: "sprite \<Rightarrow> nat \<Rightarrow> frame" where
  "frame_of S i = (if i < length (spr_frames S) then spr_frames S ! i else zero_frame)"

text \<open>The two reads of the width and the height, stored in the new cel.\<close>

definition cel_read_size :: "ASE_ctx \<Rightarrow> cel \<Rightarrow> (u16 \<times> u16 \<times> cel) \<times> ASE_ctx" where
  "cel_read_size F Cel =
    (case ASE__read16 F of (w, F1) \<Rightarrow>
     case ASE__read16 F1 of (h, F2) \<Rightarrow> ((w, h, Cel\<lparr>cel_w := w, cel_h := h\<rparr>), F2))"

text \<open>
  \<open>ASE_Cel_read\<close>. \<open>Frame\<close> points at the frame being decoded and is the index of that
  frame; the returned pointer is the index of the new cel in it, or \<open>None\<close> for the null
  pointer. The new cel starts from the zeros of \<open>memset\<close>. \<open>None\<close> for the whole result: the decoder of a compressed cel did not return.
\<close>

definition ASE_Cel_read ::
  "bool \<Rightarrow> ASE_ctx \<Rightarrow> sprite \<Rightarrow> nat \<Rightarrow> nat \<Rightarrow> int \<Rightarrow> (nat option \<times> ASE_ctx \<times> sprite) option" where
  "ASE_Cel_read nd F0 S frame_index Frame EndPos =
    (case ASE_CelHeader_read F0 of (H, F) \<Rightarrow>
     let layer = uint (clh_layer H) in
     if \<not> (0 \<le> layer \<and> layer < spr_nlayers S) then Some (None, F, S)
     else if lay_type (layer_at (spr_layers S) layer) \<noteq> ASE_FILE_LAYER_IMAGE then Some (None, F, S)
     else
       (let Fr = ASE_DOC_AddCel (frame_of S Frame);
            Cel = nat (frm_ncels Fr - 1);
            C0 = zero_cel\<lparr>cel_layer := clh_layer H, cel_x := clh_x H, cel_y := clh_y H,
                    cel_opacity := clh_opacity H\<rparr>;
            done = (\<lambda>C F'. Some (Some Cel, F',
                      S\<lparr>spr_frames := (spr_frames S)[Frame := Fr\<lparr>frm_cels := (frm_cels Fr)[Cel := C]\<rparr>]\<rparr>))
        in
        if clh_type H = ASE_FILE_RAW_CEL then
          (case cel_read_size F C0 of ((w, h, C1), F1) \<Rightarrow>
             if w > 0 \<and> h > 0 then
               (if spr_depth S = ASE_DEPTH_RGBA then
                  (case ASE_DOC_read_raw_image_rgba F1 C1 of (C2, F2) \<Rightarrow> done C2 F2)
                else if spr_depth S = ASE_DEPTH_GRAYSCALE then
                  (case ASE_DOC_read_raw_image_grayscale F1 C1 of (C2, F2) \<Rightarrow> done C2 F2)
                else if spr_depth S = ASE_DEPTH_INDEXED then
                  (case ASE_DOC_read_raw_image_indexed F1 C1 of (C2, F2) \<Rightarrow> done C2 F2)
                else done C1 F1)
             else done C1 F1)
        else if clh_type H = ASE_FILE_LINK_CEL then
          (case ASE__read16 F of (frame, F1) \<Rightarrow>
             done (C0\<lparr>cel_is_linked := 1, cel_frame := uint frame\<rparr>) F1)
        else if clh_type H = ASE_FILE_COMPRESSED_CEL then
          (case cel_read_size F C0 of ((w, h, C1), F1) \<Rightarrow>
             if w > 0 \<and> h > 0 then
               (if spr_depth S = ASE_DEPTH_RGBA then
                  (case ASE_DOC_read_compressed_rgba nd F1 C1 EndPos of None \<Rightarrow> None
                   | Some (C2, F2) \<Rightarrow> done C2 F2)
                else if spr_depth S = ASE_DEPTH_GRAYSCALE then
                  (case ASE_DOC_read_compressed_grayscale nd F1 C1 EndPos of None \<Rightarrow> None
                   | Some (C2, F2) \<Rightarrow> done C2 F2)
                else if spr_depth S = ASE_DEPTH_INDEXED then
                  (case ASE_DOC_read_compressed_indexed nd F1 C1 EndPos of None \<Rightarrow> None
                   | Some (C2, F2) \<Rightarrow> done C2 F2)
                else done C1 F1)
             else done C1 F1)
        else done C0 F))"

section \<open>Tags chunk: \<open>ASE_Tags_read\<close>\<close>

text \<open>One turn of the loop over the tags.\<close>

definition tag_entry :: "ASE_ctx \<Rightarrow> sprite \<Rightarrow> ASE_ctx \<times> sprite" where
  "tag_entry F0 S =
    (case ASE__read16 F0 of (From, F1) \<Rightarrow>
     case ASE__read16 F1 of (To, F2) \<Rightarrow>
     case ASE__read8 F2 of (dir, F3) \<Rightarrow>
       (let AnimDirection =
              (if uint dir \<noteq> ASE_LOOP_FORWARD \<and> uint dir \<noteq> ASE_LOOP_REVERSE
                  \<and> uint dir \<noteq> ASE_LOOP_PINGPONG
               then ASE_LOOP_FORWARD else uint dir);
            F4 = snd (ASE__read32 F3);
            F5 = snd (ASE__read32 F4);
            F6 = ASE__mem_skip F5 4
        in case ASE_DOC_read_string F6 of (Name, F7) \<Rightarrow>
             (let S1 = ASE_DOC_AddTag S;
                  Tag = nat (spr_ntags S1 - 1);
                  T = zero_tag\<lparr>tag_from := From, tag_to := To,
                         tag_dir := word_of_int AnimDirection, tag_name := Some Name\<rparr>
              in (F7, S1\<lparr>spr_tags := (spr_tags S1)[Tag := T]\<rparr>))))"

fun tags_loop :: "nat \<Rightarrow> ASE_ctx \<Rightarrow> sprite \<Rightarrow> ASE_ctx \<times> sprite" where
  "tags_loop 0 F S = (F, S)"
| "tags_loop (Suc n) F S = (case tag_entry F S of (F', S') \<Rightarrow> tags_loop n F' S')"

definition ASE_Tags_read :: "ASE_ctx \<Rightarrow> sprite \<Rightarrow> ASE_ctx \<times> sprite" where
  "ASE_Tags_read F0 S =
    (case ASE__read16 F0 of (count, F1) \<Rightarrow>
       tags_loop (unat count) (snd (ASE__read32 (snd (ASE__read32 F1)))) S)"

section \<open>The decoder: \<open>ASE__decode_main\<close>\<close>

definition ASE_FILE_CHUNK_FLI_COLOR2 :: u16 where "ASE_FILE_CHUNK_FLI_COLOR2 = 4"
definition ASE_FILE_CHUNK_FLI_COLOR :: u16 where "ASE_FILE_CHUNK_FLI_COLOR = 11"
definition ASE_FILE_CHUNK_LAYER :: u16 where "ASE_FILE_CHUNK_LAYER = 0x2004"
definition ASE_FILE_CHUNK_CEL :: u16 where "ASE_FILE_CHUNK_CEL = 0x2005"
definition ASE_FILE_CHUNK_FRAME_TAGS :: u16 where "ASE_FILE_CHUNK_FRAME_TAGS = 0x2018"
definition ASE_FILE_CHUNK_PALETTE :: u16 where "ASE_FILE_CHUNK_PALETTE = 0x2019"

text \<open>
  The variables of \<open>ASE__decode_main\<close> that live across the loops: the context, the
  sprite, \<open>LastLayer\<close>, \<open>CurrentLevel\<close> and \<open>IgnoreOldColorChunks\<close>. (\<open>LastWithUserData\<close> and
  \<open>LastCel\<close> are written and never read.)
\<close>

record decode_state =
  ds_F :: ASE_ctx
  ds_S :: sprite
  ds_LastLayer :: "nat option"
  ds_CurrentLevel :: int
  ds_IgnoreOldColorChunks :: bool

text \<open>
  The \<open>switch\<close> on the chunk type. \<open>None\<close>: the builder did not return (the zlib decoder
  hung or aborted, or \<open>ASE_Layer_read\<close> went through a null pointer).
\<close>

definition chunk_dispatch ::
  "bool \<Rightarrow> realloc_view \<Rightarrow> nat \<Rightarrow> nat \<Rightarrow> ASE_DOC_Header \<Rightarrow> ASE_DOC_ChunkHeader \<Rightarrow> int
     \<Rightarrow> decode_state \<Rightarrow> decode_state option" where
  "chunk_dispatch nd al i Frame Header ChunkHeader ChunkHeaderStart st =
    (if ch_type ChunkHeader = ASE_FILE_CHUNK_FLI_COLOR
        \<or> ch_type ChunkHeader = ASE_FILE_CHUNK_FLI_COLOR2 then Some st
     else if ch_type ChunkHeader = ASE_FILE_CHUNK_PALETTE then
       (case ASE_Palette_read (ds_F st) (spr_palette (ds_S st)) of
          (R, F') \<Rightarrow>
            Some (st\<lparr>ds_F := F', ds_S := (ds_S st)\<lparr>spr_palette := R\<rparr>,
                     ds_IgnoreOldColorChunks := True\<rparr>))
     else if ch_type ChunkHeader = ASE_FILE_CHUNK_LAYER then
       (case ASE_Layer_read al (ds_F st) Header (ds_S st) (ds_LastLayer st)
               (ds_CurrentLevel st) of
          None \<Rightarrow> None
        | Some (Layer, F', S', LastLayer', CurrentLevel') \<Rightarrow>
            Some (st\<lparr>ds_F := F', ds_S := S', ds_LastLayer := LastLayer',
                     ds_CurrentLevel := CurrentLevel'\<rparr>))
     else if ch_type ChunkHeader = ASE_FILE_CHUNK_CEL then
       (case ASE_Cel_read nd (ds_F st) (ds_S st) i Frame
               (ChunkHeaderStart + uint (ch_size ChunkHeader)) of
          None \<Rightarrow> None
        | Some (Cel, F', S') \<Rightarrow> Some (st\<lparr>ds_F := F', ds_S := S'\<rparr>))
     else if ch_type ChunkHeader = ASE_FILE_CHUNK_FRAME_TAGS then
       (case ASE_Tags_read (ds_F st) (ds_S st) of
          (F', S') \<Rightarrow> Some (st\<lparr>ds_F := F', ds_S := S'\<rparr>))
     else Some st)"

text \<open>
  One turn of the loop over the chunks of a frame: the chunk header, the builder, and
  the seek to the start of the header plus the size it declares.
\<close>

definition decode_chunk ::
  "bool \<Rightarrow> realloc_view \<Rightarrow> nat \<Rightarrow> nat \<Rightarrow> ASE_DOC_Header \<Rightarrow> decode_state
     \<Rightarrow> decode_state option" where
  "decode_chunk nd al i Frame Header st =
    (let ChunkHeaderStart = ASE__mem_tell (ds_F st) in
     case ASE_DOC_ChunkHeader_read (ds_F st) of (ChunkHeader, F1) \<Rightarrow>
       (case chunk_dispatch nd al i Frame Header ChunkHeader ChunkHeaderStart
               (st\<lparr>ds_F := F1\<rparr>) of
          None \<Rightarrow> None
        | Some st' \<Rightarrow>
            Some (st'\<lparr>ds_F := ASE__mem_seek (ds_F st')
                     (int_of_size_t (ChunkHeaderStart + uint (ch_size ChunkHeader)))\<rparr>)))"

fun decode_chunks ::
  "bool \<Rightarrow> realloc_view \<Rightarrow> nat \<Rightarrow> nat \<Rightarrow> ASE_DOC_Header \<Rightarrow> nat \<Rightarrow> decode_state
     \<Rightarrow> decode_state option" where
  "decode_chunks nd al i Frame Header 0 st = Some st"
| "decode_chunks nd al i Frame Header (Suc n) st =
    (case decode_chunk nd al i Frame Header st of None \<Rightarrow> None
     | Some st' \<Rightarrow> decode_chunks nd al i Frame Header n st')"

text \<open>
  One turn of the loop over the frames. The assertion on the magic number of the frame
  aborts unless \<open>NDEBUG\<close> is defined.
\<close>

definition decode_frame ::
  "bool \<Rightarrow> realloc_view \<Rightarrow> nat \<Rightarrow> ASE_DOC_Header \<Rightarrow> decode_state \<Rightarrow> decode_state option" where
  "decode_frame nd al i Header st =
    (let FrameHeaderStart = ASE__mem_tell (ds_F st) in
     case ASE_FrameHeader_read (ds_F st) of (FrameHeader, F1) \<Rightarrow>
       if nd \<or> fh_magic FrameHeader = ASE_FILE_FRAME_MAGIC then
         (let S1 = ASE_DOC_AddFrame (ds_S st);
              Frame = nat (spr_nframes S1 - 1);
              S2 = S1\<lparr>spr_frames := (spr_frames S1)
                        [Frame := zero_frame\<lparr>frm_duration := fh_duration FrameHeader\<rparr>]\<rparr>
          in case decode_chunks nd al i Frame Header (unat (fh_chunks FrameHeader))
                    (st\<lparr>ds_F := F1, ds_S := S2\<rparr>) of
               None \<Rightarrow> None
             | Some st' \<Rightarrow>
                 Some (st'\<lparr>ds_F := ASE__mem_seek (ds_F st')
                          (int_of_size_t (FrameHeaderStart + uint (fh_size FrameHeader)))\<rparr>))
       else None)"

text \<open>The loop \<open>for (i = 0; i < Header.frames; ++i)\<close>, with \<open>n\<close> turns left from frame \<open>i\<close>.\<close>

fun decode_frames ::
  "bool \<Rightarrow> realloc_view \<Rightarrow> ASE_DOC_Header \<Rightarrow> nat \<Rightarrow> nat \<Rightarrow> decode_state
     \<Rightarrow> decode_state option" where
  "decode_frames nd al Header 0 i st = Some st"
| "decode_frames nd al Header (Suc n) i st =
    (case decode_frame nd al i Header st of None \<Rightarrow> None
     | Some st' \<Rightarrow> decode_frames nd al Header n (Suc i) st')"

text \<open>
  \<open>ASE__decode_main\<close>: the return value \<open>R\<close>, the context and the sprite. \<open>None\<close>: the call
  does not return. \<open>assert(Ok)\<close> aborts on a header that \<open>ASE_DOC_Header_read\<close> refuses,
  unless \<open>NDEBUG\<close> is defined; then the decoder goes on with the header as read.
\<close>

definition ASE__decode_main ::
  "bool \<Rightarrow> realloc_view \<Rightarrow> ASE_ctx \<Rightarrow> sprite \<Rightarrow> (bool \<times> ASE_ctx \<times> sprite) option" where
  "ASE__decode_main nd al F S =
    (let R = True in
     case ASE_DOC_Header_read F of (Ok, Header, F1) \<Rightarrow>
       if nd \<or> Ok then
         (let S1 = S\<lparr>spr_width := hdr_width Header, spr_height := hdr_height Header,
                     spr_depth := hdr_depth Header\<rparr>
          in case decode_frames nd al Header (unat (hdr_frames Header)) 0
                    \<lparr>ds_F = F1, ds_S = S1, ds_LastLayer = None, ds_CurrentLevel = -1,
                     ds_IgnoreOldColorChunks = False\<rparr> of
               None \<Rightarrow> None
             | Some st \<Rightarrow> Some (R, ds_F st, ds_S st))
       else None)"

text \<open>\<open>ASE_load_from_memory\<close>: the return value and the sprite behind \<open>out\<close>.\<close>

definition ASE_load_from_memory ::
  "bool \<Rightarrow> realloc_view \<Rightarrow> (int \<Rightarrow> u8) \<Rightarrow> int \<Rightarrow> sprite \<Rightarrow> (bool \<times> sprite) option" where
  "ASE_load_from_memory nd al buffer len out =
    (case ASE__decode_main nd al (ASE__start_mem buffer len) out of None \<Rightarrow> None
     | Some (R, F, S) \<Rightarrow> Some (R, S))"

section \<open>Releasing a sprite: \<open>ASE_free\<close>\<close>

text \<open>
  \<open>ASE_free\<close> is about ownership, so its model has an explicit store: a partial map from
  addresses to allocated blocks, with pointers as addresses (\<open>0\<close> is the null pointer).
  The structs are the records of the data model with addresses for their pointer fields.
\<close>

type_synonym addr = nat

datatype block =
  Bytes "u8 list"
| Layer_array "addr ASE_Layer list"
| Cel_array "addr ASE_Cel list"
| Frame_array "addr ASE_Frame list"
| Tag_array "addr ASE_Tag list"

type_synonym store = "addr \<Rightarrow> block option"

type_synonym sprite_mem = "(addr, addr, addr) ASE_Sprite"

text \<open>
  \<open>ASE_FREE\<close> (the C library's \<open>free\<close>): nothing for a null pointer, the block is released for
  an allocated one; anything else is undefined in C and \<open>None\<close> here.
\<close>

definition ASE_FREE :: "addr \<Rightarrow> store \<Rightarrow> store option" where
  "ASE_FREE p h = (if p = 0 then Some h else if p \<in> dom h then Some (h(p := None)) else None)"

text \<open>Reading through a pointer: defined for an allocated block only.\<close>

definition load :: "store \<Rightarrow> addr \<Rightarrow> block option" where
  "load h p = (if p = 0 then None else h p)"

text \<open>The pointer fields the loops of \<open>ASE_free\<close> read: \<open>(a + i)->field\<close>.\<close>

definition layer_name_at :: "addr \<Rightarrow> store \<Rightarrow> nat \<Rightarrow> addr option" where
  "layer_name_at a h i =
    (case load h a of Some (Layer_array ls) \<Rightarrow> if i < length ls then Some (lay_name (ls ! i)) else None
     | _ \<Rightarrow> None)"

definition tag_name_at :: "addr \<Rightarrow> store \<Rightarrow> nat \<Rightarrow> addr option" where
  "tag_name_at a h i =
    (case load h a of Some (Tag_array ts) \<Rightarrow> if i < length ts then Some (tag_name (ts ! i)) else None
     | _ \<Rightarrow> None)"

definition frame_at :: "addr \<Rightarrow> store \<Rightarrow> nat \<Rightarrow> addr ASE_Frame option" where
  "frame_at a h i =
    (case load h a of Some (Frame_array fs) \<Rightarrow> if i < length fs then Some (fs ! i) else None
     | _ \<Rightarrow> None)"

definition cel_data_at :: "addr \<Rightarrow> nat \<Rightarrow> store \<Rightarrow> nat \<Rightarrow> addr option" where
  "cel_data_at a i h j =
    (case frame_at a h i of None \<Rightarrow> None
     | Some I \<Rightarrow>
        (case load h (frm_cels I) of
           Some (Cel_array cs) \<Rightarrow> if j < length cs then Some (cel_data (cs ! j)) else None
         | _ \<Rightarrow> None))"

text \<open>
  The loop \<open>for (i = 0; i < n; ++i) ASE_FREE((a + i)->field)\<close>, with \<open>k\<close> turns left from index
  \<open>i\<close>. Every turn reads the element from the store as it is then.
\<close>

fun free_fields :: "(store \<Rightarrow> nat \<Rightarrow> addr option) \<Rightarrow> nat \<Rightarrow> nat \<Rightarrow> store \<Rightarrow> store option" where
  "free_fields field 0 i h = Some h"
| "free_fields field (Suc k) i h =
    (case field h i of None \<Rightarrow> None
     | Some p \<Rightarrow> (case ASE_FREE p h of None \<Rightarrow> None | Some h' \<Rightarrow> free_fields field k (Suc i) h'))"

text \<open>
  The loop over the frames: for frame \<open>i\<close> the data of its \<open>ncels\<close> cels, then its array of
  cels.
\<close>

fun free_frames :: "addr \<Rightarrow> nat \<Rightarrow> nat \<Rightarrow> store \<Rightarrow> store option" where
  "free_frames a 0 i h = Some h"
| "free_frames a (Suc k) i h =
    (case frame_at a h i of None \<Rightarrow> None
     | Some I \<Rightarrow>
        (case free_fields (cel_data_at a i) (nat (frm_ncels I)) 0 h of None \<Rightarrow> None
         | Some h1 \<Rightarrow>
            (case frame_at a h1 i of None \<Rightarrow> None
             | Some I' \<Rightarrow>
                (case ASE_FREE (frm_cels I') h1 of None \<Rightarrow> None
                 | Some h2 \<Rightarrow> free_frames a k (Suc i) h2))))"

definition zero_sprite_mem :: sprite_mem where
  "zero_sprite_mem = \<lparr>spr_width = 0, spr_height = 0, spr_depth = 0, spr_palette = zero_palette,
     spr_nlayers = 0, spr_layers = 0, spr_nframes = 0, spr_frames = 0,
     spr_ntags = 0, spr_tags = 0\<rparr>"

text \<open>
  \<open>ASE_free\<close>: the store and the sprite behind the pointer (\<open>None\<close> for a null \<open>Sprite\<close>),
  before and after.
\<close>

definition ASE_free :: "store \<Rightarrow> sprite_mem option \<Rightarrow> (store \<times> sprite_mem option) option" where
  "ASE_free h Sprite =
    (case Sprite of None \<Rightarrow> Some (h, None)
     | Some S \<Rightarrow>
        (case free_fields (layer_name_at (spr_layers S)) (nat (spr_nlayers S)) 0 h of None \<Rightarrow> None
         | Some h1 \<Rightarrow>
        (case ASE_FREE (spr_layers S) h1 of None \<Rightarrow> None
         | Some h2 \<Rightarrow>
        (case free_frames (spr_frames S) (nat (spr_nframes S)) 0 h2 of None \<Rightarrow> None
         | Some h3 \<Rightarrow>
        (case ASE_FREE (spr_frames S) h3 of None \<Rightarrow> None
         | Some h4 \<Rightarrow>
        (case free_fields (tag_name_at (spr_tags S)) (nat (spr_ntags S)) 0 h4 of None \<Rightarrow> None
         | Some h5 \<Rightarrow>
        (case ASE_FREE (spr_tags S) h5 of None \<Rightarrow> None
         | Some h6 \<Rightarrow> Some (h6, Some zero_sprite_mem))))))))"


text \<open>
  The pointers that \<open>ASE_free\<close> passes to \<open>ASE_FREE\<close>, in the order of the calls, read from
  the store before the call: for each layer its name, then the array of layers; for each
  frame the data of each cel and then its array of cels, then the array of frames; for
  each tag its name, then the array of tags. \<open>None\<close> when an array that a loop reads is
  not allocated or is shorter than its count.
\<close>

definition frame_frees :: "addr \<Rightarrow> store \<Rightarrow> nat \<Rightarrow> addr list option" where
  "frame_frees a h i =
    (case frame_at a h i of None \<Rightarrow> None
     | Some I \<Rightarrow>
        (case those (map (cel_data_at a i h) [0..<nat (frm_ncels I)]) of None \<Rightarrow> None
         | Some ds \<Rightarrow> Some (ds @ [frm_cels I])))"

definition sprite_frees :: "store \<Rightarrow> sprite_mem \<Rightarrow> addr list option" where
  "sprite_frees h S =
    (case those (map (layer_name_at (spr_layers S) h) [0..<nat (spr_nlayers S)]) of None \<Rightarrow> None
     | Some ns \<Rightarrow>
    (case those (map (frame_frees (spr_frames S) h) [0..<nat (spr_nframes S)]) of None \<Rightarrow> None
     | Some fss \<Rightarrow>
    (case those (map (tag_name_at (spr_tags S) h) [0..<nat (spr_ntags S)]) of None \<Rightarrow> None
     | Some ts \<Rightarrow>
        Some (ns @ [spr_layers S] @ concat fss @ [spr_frames S] @ ts @ [spr_tags S]))))"

text \<open>Two stores that agree outside a set of addresses.\<close>

definition agree_off :: "addr set \<Rightarrow> store \<Rightarrow> store \<Rightarrow> bool" where
  "agree_off A h h' = (\<forall>p. p \<notin> A \<longrightarrow> h' p = h p)"

text \<open>
  A store with one layer, one frame holding one cel, and one tag, each with its name or
  pixel buffer, and one block (at 8) that the sprite does not own.
\<close>

definition example_store :: store where
  "example_store =
    [1 \<mapsto> Layer_array [\<lparr>lay_name = 2, lay_flags = 1, lay_type = 0, lay_blendmode = 0,
            lay_opacity = 255, lay_child_level = 0, lay_parent = -1, lay_visible = 1\<rparr>],
     2 \<mapsto> Bytes [0x42, 0x47],
     3 \<mapsto> Frame_array [\<lparr>frm_duration = 100, frm_ncels = 1, frm_cels = 4\<rparr>],
     4 \<mapsto> Cel_array [\<lparr>cel_layer = 0, cel_x = 0, cel_y = 0, cel_w = 1, cel_h = 1,
            cel_opacity = 255, cel_data = 5, cel_is_linked = 0, cel_frame = 0\<rparr>],
     5 \<mapsto> Bytes [1, 2, 3, 4],
     6 \<mapsto> Tag_array [\<lparr>tag_from = 0, tag_to = 0, tag_dir = 0, tag_name = 7\<rparr>],
     7 \<mapsto> Bytes [0x41],
     8 \<mapsto> Bytes [9]]"

definition example_sprite_mem :: sprite_mem where
  "example_sprite_mem =
    \<lparr>spr_width = 1, spr_height = 1, spr_depth = 32, spr_palette = zero_palette,
     spr_nlayers = 1, spr_layers = 1, spr_nframes = 1, spr_frames = 3,
     spr_ntags = 1, spr_tags = 6\<rparr>"

section \<open>Readings of results, and example inputs\<close>

declare zblocks.simps [code]

declare stbi__parse_huffman_block.simps [code]

text \<open>The position of the context in the state a loop turn returns.\<close>

definition end_pos :: "decode_state option \<Rightarrow> int option" where
  "end_pos r = (case r of None \<Rightarrow> None | Some st \<Rightarrow> Some (ctx_pos (ds_F st)))"

text \<open>What a call of \<open>ASE_load_from_memory\<close> returns: \<open>R\<close>, \<open>nlayers\<close> and \<open>nframes\<close>.\<close>

definition load_summary :: "(bool \<times> sprite) option \<Rightarrow> (bool \<times> int \<times> int) option" where
  "load_summary r =
    (case r of None \<Rightarrow> None | Some (R, S) \<Rightarrow> Some (R, spr_nlayers S, spr_nframes S))"

text \<open>A file whose header has the magic number 0 and announces one frame.\<close>

definition bad_magic_bytes :: "u8 list" where
  "bad_magic_bytes =
    [0,0,0,0, 0,0, 1,0, 4,0, 4,0, 32,0, 0,0,0,0, 0,0, 0,0,0,0, 0,0,0,0,
     0, 0,0,0, 0,0, 1, 1]"

text \<open>
  A decoder state at offset 144 (after the document header and a frame header) of a
  buffer that holds there a chunk header of type 0 with the size \<open>0xFFFFFF70\<close>.
\<close>

definition wrap_state :: decode_state where
  "wrap_state =
    \<lparr>ds_F = \<lparr>ctx_mem = mem_of (replicate 144 0 @ [0x70, 0xFF, 0xFF, 0xFF, 0, 0]),
             ctx_len = 150, ctx_pos = 144\<rparr>,
     ds_S = zero_sprite, ds_LastLayer = None, ds_CurrentLevel = -1,
     ds_IgnoreOldColorChunks = False\<rparr>"

text \<open>
  A decoder state at the start of a buffer that holds a chunk of type \<open>0x2020\<close> (user
  data, ignored) with the declared size 10, and one at the start of a frame header
  with the declared size 16 and no chunks.
\<close>

definition skip_state :: decode_state where
  "skip_state =
    \<lparr>ds_F = \<lparr>ctx_mem = mem_of [10, 0, 0, 0, 0x20, 0x20, 1, 2, 3, 4], ctx_len = 10, ctx_pos = 0\<rparr>,
     ds_S = zero_sprite, ds_LastLayer = None, ds_CurrentLevel = -1,
     ds_IgnoreOldColorChunks = False\<rparr>"

definition frame_state :: decode_state where
  "frame_state =
    \<lparr>ds_F = \<lparr>ctx_mem = mem_of [16, 0, 0, 0, 0xFA, 0xF1, 0, 0, 100, 0, 0, 0, 0, 0, 0, 0],
             ctx_len = 16, ctx_pos = 0\<rparr>,
     ds_S = zero_sprite, ds_LastLayer = None, ds_CurrentLevel = -1,
     ds_IgnoreOldColorChunks = False\<rparr>"

text \<open>An accepted document header: depth 32, one frame.\<close>

definition example_header :: ASE_DOC_Header where
  "example_header =
    \<lparr>hdr_size = 0, hdr_magic = 0xA5E0, hdr_frames = 1, hdr_width = 4, hdr_height = 4,
     hdr_depth = 32, hdr_flags = 0, hdr_speed = 0, hdr_next = 0, hdr_frit = 0,
     hdr_transparent_index = 0, hdr_ncolors = 256, hdr_pixel_w = 1, hdr_pixel_h = 1\<rparr>"

text \<open>The bytes per pixel that the \<open>switch\<close> on the depth of the sprite selects.\<close>

definition bytes_per_pixel :: "u16 \<Rightarrow> int option" where
  "bytes_per_pixel d =
    (if d = ASE_DEPTH_RGBA then Some 4 else if d = ASE_DEPTH_GRAYSCALE then Some 2
     else if d = ASE_DEPTH_INDEXED then Some 1 else None)"

text \<open>
  The cel that \<open>ASE_Cel_read\<close> has built when it calls the reader of the pixels: the
  fields of the header, the width and the height on the zeros of \<open>memset\<close>; no data.
\<close>

definition cel_shell :: "ASE_CelHeader \<Rightarrow> u16 \<Rightarrow> u16 \<Rightarrow> cel" where
  "cel_shell H w h =
    zero_cel\<lparr>cel_layer := clh_layer H, cel_x := clh_x H, cel_y := clh_y H,
      cel_opacity := clh_opacity H, cel_w := w, cel_h := h\<rparr>"

text \<open>\<open>Frame\<close> with one more cel.\<close>

definition frame_with :: "frame \<Rightarrow> cel \<Rightarrow> frame" where
  "frame_with Fr C = Fr\<lparr>frm_ncels := frm_ncels Fr + 1, frm_cels := frm_cels Fr @ [C]\<rparr>"

text \<open>The pixel buffers of the cels of the first frame, in the state a loop returns.\<close>

definition first_frame_data :: "decode_state option \<Rightarrow> u8 list option list option" where
  "first_frame_data r =
    (case r of None \<Rightarrow> None
     | Some st \<Rightarrow> Some (map cel_data (frm_cels (frame_of (ds_S st) 0))))"

text \<open>
  A state in the first frame of a sprite of depth 32 with one image layer, at the start
  of two cel chunks for that layer, both 1 by 1: a compressed one whose payload is the
  two bytes 0, 0 (no zlib header), then a raw one with the pixel 1, 2, 3, 4.
\<close>

definition cel_state :: decode_state where
  "cel_state =
    \<lparr>ds_F = \<lparr>ctx_mem = mem_of
               ([28,0,0,0, 0x05,0x20, 0,0, 0,0, 0,0, 255, 2,0, 0,0,0,0,0,0,0, 1,0, 1,0, 0,0]
                @ [30,0,0,0, 0x05,0x20, 0,0, 0,0, 0,0, 255, 0,0, 0,0,0,0,0,0,0, 1,0, 1,0,
                   1,2,3,4]),
             ctx_len = 58, ctx_pos = 0\<rparr>,
     ds_S = zero_sprite\<lparr>spr_depth := 32, spr_nlayers := 1,
              spr_layers := [zero_layer\<lparr>lay_parent := -1\<rparr>],
              spr_nframes := 1, spr_frames := [zero_frame]\<rparr>,
     ds_LastLayer = Some 0, ds_CurrentLevel = 0, ds_IgnoreOldColorChunks = False\<rparr>"

section \<open>Theorems\<close>

subsection \<open>Layer tree (C1, C6)\<close>

text \<open>
  C1. A layer chunk whose depth is nonzero and below the last depth is claimed to get
  the ancestor computed by the walk up the parent chain as its parent. For the depths
  0, 0, 1, 2, 1 the fifth chunk takes that branch: the walk computes layer 1 (the root
  that holds layers 2 and 3) when the pointer to the previous layer is still good, but
  the value is never stored, and the parent of the fifth layer is the 0 left by
  \<open>memset\<close>, wherever the allocator puts the array.
\<close>

theorem C1_shallower_layer_parent_not_stored:
  "layer_computed_parent realloc_in_place (layer_chunk 0 1)
     (layers_decode al (map (layer_chunk 0) [0, 0, 1, 2]) zero_sprite None (-1)) = Some 1
   \<and> layer_parents
       (layers_decode al (map (layer_chunk 0) [0, 0, 1, 2, 1]) zero_sprite None (-1))
     = Some [-1, -1, 1, 2, 0]"
  by code_simp







subsection \<open>Palette (C2, C9)\<close>

text \<open>
  C2. A palette chunk for the range 5 to 7 is claimed to store its colors at the indices
  5 to 7 and to raise the count to at least 8. Applied to the zeroed palette, the code
  stores the three colors (red and blue exchanged) at the indices 0 to 2, where the
  count stood, leaves the entries 5 to 7 as they were and ends with the count 3.
\<close>

theorem C2_palette_chunk_stored_at_count:
  "pal_ncolors (fst (ASE_Palette_read (ASE__start_mem (mem_of palette_chunk_5_7) 38) zero_palette)) = 3
   \<and> map (pal_colors (fst (ASE_Palette_read (ASE__start_mem (mem_of palette_chunk_5_7) 38) zero_palette)))
        [0, 1, 2, 5, 6, 7]
     = [\<lparr>px_r = 3, px_g = 2, px_b = 1, px_a = 4\<rparr>, \<lparr>px_r = 7, px_g = 6, px_b = 5, px_a = 8\<rparr>,
        \<lparr>px_r = 11, px_g = 10, px_b = 9, px_a = 12\<rparr>, zero_pixel, zero_pixel, zero_pixel]"
  by code_simp

text \<open>
  C9. The count of the palette is an 8-bit field, so after any sequence of palette
  chunks, applied to any palette, it is at most 255, hence never above 256; and a header
  that \<open>ASE_DOC_Header_read\<close> accepts has its color count normalised: a reported count
  of zero becomes 256, any other count is kept.
\<close>

theorem C9_palette_count_bounded:
  "unat (pal_ncolors (foldl (\<lambda>P F. fst (ASE_Palette_read F P)) Prev Fs)) \<le> 256
   \<and> (fst (ASE_DOC_Header_read F) \<longrightarrow>
        hdr_ncolors (fst (snd (ASE_DOC_Header_read F)))
          = (if hdr_ncolors (fst (ASE_DOC_Header_fields F)) = 0 then 256
             else hdr_ncolors (fst (ASE_DOC_Header_fields F))))"
proof
  have "unat (pal_ncolors (foldl (\<lambda>P F. fst (ASE_Palette_read F P)) Prev Fs)) < 2 ^ LENGTH(8)"
    by (rule unsigned_less)
  then show "unat (pal_ncolors (foldl (\<lambda>P F. fst (ASE_Palette_read F P)) Prev Fs)) \<le> 256"
    by simp
next
  show "fst (ASE_DOC_Header_read F) \<longrightarrow>
        hdr_ncolors (fst (snd (ASE_DOC_Header_read F)))
          = (if hdr_ncolors (fst (ASE_DOC_Header_fields F)) = 0 then 256
             else hdr_ncolors (fst (ASE_DOC_Header_fields F)))"
    by (cases "ASE_DOC_Header_fields F")
       (simp add: ASE_DOC_Header_read_def Let_def)
qed

theorem C9_palette_count_bounded_witness:
  "fst (ASE_DOC_Header_read (ASE__start_mem (mem_of header_bytes) 36))
   \<and> hdr_ncolors (fst (ASE_DOC_Header_fields (ASE__start_mem (mem_of header_bytes) 36))) = 0
   \<and> hdr_ncolors (fst (snd (ASE_DOC_Header_read (ASE__start_mem (mem_of header_bytes) 36)))) = 256
   \<and> unat (pal_ncolors (foldl (\<lambda>P F. fst (ASE_Palette_read F P)) zero_palette
              [ASE__start_mem (mem_of palette_chunk_5_7) 38,
               ASE__start_mem (mem_of palette_chunk_5_7) 38])) \<le> 256"
proof -
  have a: "fst (ASE_DOC_Header_read (ASE__start_mem (mem_of header_bytes) 36))"
    by code_simp
  have b: "hdr_ncolors (fst (ASE_DOC_Header_fields (ASE__start_mem (mem_of header_bytes) 36))) = 0"
    by code_simp
  show ?thesis
    using a b C9_palette_count_bounded [of zero_palette
      "[ASE__start_mem (mem_of palette_chunk_5_7) 38, ASE__start_mem (mem_of palette_chunk_5_7) 38]"
      "ASE__start_mem (mem_of header_bytes) 36"]
    by simp
qed

subsection \<open>A refused document header (C3)\<close>

text \<open>
  C3. A document whose magic number is not \<open>0xA5E0\<close> is claimed to make the load entry
  point return a failure result with no layers and no frames built. \<open>ASE__decode_main\<close>
  never returns failure, whatever the input: its result \<open>R\<close> is set to 1 and never
  changed. On the file \<open>bad_magic_bytes\<close> (magic number 0, one frame announced) the entry
  point \<open>ASE_load_from_memory\<close> does not return when assertions are compiled in
  (\<open>assert(Ok)\<close> aborts the process), and with \<open>NDEBUG\<close> it decodes on, builds the frame
  and returns 1.
\<close>

theorem C3_bad_magic_never_fails:
  "ASE__decode_main nd al F S \<noteq> Some (False, F', S')
   \<and> load_summary (ASE_load_from_memory False al (mem_of bad_magic_bytes) 36 zero_sprite) = None
   \<and> load_summary (ASE_load_from_memory True al (mem_of bad_magic_bytes) 36 zero_sprite)
       = Some (True, 0, 1)"
proof -
  have "ASE__decode_main nd al F S \<noteq> Some (False, F', S')"
    by (auto simp add: ASE__decode_main_def Let_def split: prod.splits option.splits)
  moreover have
    "load_summary (ASE_load_from_memory False al (mem_of bad_magic_bytes) 36 zero_sprite) = None"
    by code_simp
  moreover have
    "load_summary (ASE_load_from_memory True al (mem_of bad_magic_bytes) 36 zero_sprite)
       = Some (True, 0, 1)"
    by code_simp
  ultimately show ?thesis by simp
qed

subsection \<open>Animation tags (C4)\<close>

text \<open>
  C4. \<open>ASE_get_next_frame\<close> is claimed to compute the specification's next-frame
  function for every tag and index. On the ping-pong tag with \<open>from = 2\<close> and \<open>to = 5\<close> at
  the index \<open>-1\<close> (the frame one below \<open>to\<close>) the code compares the decremented index
  itself with \<open>from\<close> and answers \<open>0\<close>, where the specification's function answers \<open>-2\<close>
  (frame \<open>3\<close>, which is not below \<open>from\<close>). The three examples of the claim do hold.
\<close>

theorem C4_next_frame_pingpong_diverges:
  "ASE_get_next_frame \<lparr>tag_from = 2, tag_to = 5, tag_dir = 2, tag_name = ()\<rparr> (-1) = 0
   \<and> next_frame_spec \<lparr>tag_from = 2, tag_to = 5, tag_dir = 2, tag_name = ()\<rparr> (-1) = -2
   \<and> ASE_get_next_frame \<lparr>tag_from = 2, tag_to = 5, tag_dir = 0, tag_name = ()\<rparr> 5 = 2
   \<and> ASE_get_next_frame \<lparr>tag_from = 2, tag_to = 5, tag_dir = 1, tag_name = ()\<rparr> 2 = 5
   \<and> ASE_get_next_frame \<lparr>tag_from = 3, tag_to = 3, tag_dir = 2, tag_name = ()\<rparr> 3 = 0"
  by (simp add: ASE_get_next_frame_def next_frame_spec_def
        ASE_LOOP_FORWARD_def ASE_LOOP_REVERSE_def ASE_LOOP_PINGPONG_def)

subsection \<open>Resynchronisation after every chunk and frame (C7)\<close>

text \<open>
  Whatever the builder of a chunk does, a turn of the chunk loop that returns leaves the
  context at the offset handed to \<open>seek\<close>; the same holds for a turn of the frame loop.
\<close>

lemma int_of_size_t_id: "- (2 ^ 31) \<le> n \<Longrightarrow> n < 2 ^ 31 \<Longrightarrow> int_of_size_t n = n"
  unfolding int_of_size_t_def by (rule signed_take_bit_int_eq_self) simp_all

lemma decode_chunk_pos:
  assumes "decode_chunk nd al i Frame Header st = Some st'"
  shows "ctx_pos (ds_F st')
         = int_of_size_t (ctx_pos (ds_F st)
             + uint (ch_size (fst (ASE_DOC_ChunkHeader_read (ds_F st)))))"
  using assms
  by (auto simp add: decode_chunk_def Let_def ASE__mem_seek_def ASE__mem_tell_def
        split: prod.splits option.splits)

lemma decode_frame_pos:
  assumes "decode_frame nd al i Header st = Some st'"
  shows "ctx_pos (ds_F st')
         = int_of_size_t (ctx_pos (ds_F st)
             + uint (fh_size (fst (ASE_FrameHeader_read (ds_F st)))))"
  using assms
  by (auto simp add: decode_frame_def Let_def ASE__mem_seek_def ASE__mem_tell_def
        split: prod.splits option.splits if_splits)

text \<open>
  C7 as stated: the position after a chunk is claimed to be the start of the chunk plus
  its declared size. The size is a 32-bit unsigned field and \<open>seek\<close> takes an \<open>int\<close>: for
  the chunk at offset 144 that declares the size \<open>0xFFFFFF70\<close> the sum is \<open>2 ^ 32\<close> and
  the decoder reads the next chunk header at offset 0.
\<close>

theorem C7_resync_counterexample:
  "end_pos (decode_chunk False realloc_in_place 0 0 example_header wrap_state)
     \<noteq> Some (ctx_pos (ds_F wrap_state)
               + uint (ch_size (fst (ASE_DOC_ChunkHeader_read (ds_F wrap_state)))))"
  by code_simp

text \<open>
  C7, amended. After a turn of the chunk loop that returns (the builder may have
  succeeded, failed, or read fewer or more bytes than declared) the position is the
  start of the chunk header plus the declared size, reduced to a 32-bit signed \<open>int\<close>;
  it is that sum itself whenever the start is not negative and the sum is below
  \<open>2 ^ 31\<close>. Likewise after a turn of the frame loop, with the start of the frame header
  and the size the frame header declares.
\<close>

theorem C7_resync:
  "(decode_chunk nd al i Frame Header st \<noteq> None \<longrightarrow>
      end_pos (decode_chunk nd al i Frame Header st)
        = Some (int_of_size_t (ctx_pos (ds_F st)
                  + uint (ch_size (fst (ASE_DOC_ChunkHeader_read (ds_F st)))))))
   \<and> (decode_chunk nd al i Frame Header st \<noteq> None \<and> 0 \<le> ctx_pos (ds_F st)
        \<and> ctx_pos (ds_F st) + uint (ch_size (fst (ASE_DOC_ChunkHeader_read (ds_F st)))) < 2 ^ 31 \<longrightarrow>
      end_pos (decode_chunk nd al i Frame Header st)
        = Some (ctx_pos (ds_F st) + uint (ch_size (fst (ASE_DOC_ChunkHeader_read (ds_F st))))))
   \<and> (decode_frame nd al i Header st \<noteq> None \<longrightarrow>
      end_pos (decode_frame nd al i Header st)
        = Some (int_of_size_t (ctx_pos (ds_F st)
                  + uint (fh_size (fst (ASE_FrameHeader_read (ds_F st)))))))
   \<and> (decode_frame nd al i Header st \<noteq> None \<and> 0 \<le> ctx_pos (ds_F st)
        \<and> ctx_pos (ds_F st) + uint (fh_size (fst (ASE_FrameHeader_read (ds_F st)))) < 2 ^ 31 \<longrightarrow>
      end_pos (decode_frame nd al i Header st)
        = Some (ctx_pos (ds_F st) + uint (fh_size (fst (ASE_FrameHeader_read (ds_F st))))))"
proof -
  have c: "end_pos (decode_chunk nd al i Frame Header st)
        = Some (int_of_size_t (ctx_pos (ds_F st)
                  + uint (ch_size (fst (ASE_DOC_ChunkHeader_read (ds_F st))))))"
    if "decode_chunk nd al i Frame Header st \<noteq> None"
  proof -
    from that obtain st' where s: "decode_chunk nd al i Frame Header st = Some st'" by auto
    show ?thesis using decode_chunk_pos [OF s] by (simp add: s end_pos_def)
  qed
  have f: "end_pos (decode_frame nd al i Header st)
        = Some (int_of_size_t (ctx_pos (ds_F st)
                  + uint (fh_size (fst (ASE_FrameHeader_read (ds_F st))))))"
    if "decode_frame nd al i Header st \<noteq> None"
  proof -
    from that obtain st' where s: "decode_frame nd al i Header st = Some st'" by auto
    show ?thesis using decode_frame_pos [OF s] by (simp add: s end_pos_def)
  qed
  have id: "int_of_size_t (p + uint w) = p + uint w" if "0 \<le> p" "p + uint w < 2 ^ 31"
    for p and w :: u32
  proof -
    have "0 \<le> uint w" by simp
    with that show ?thesis by (intro int_of_size_t_id) linarith+
  qed
  show ?thesis using c f id by auto
qed

theorem C7_resync_witness:
  "decode_chunk False realloc_in_place 0 0 example_header skip_state \<noteq> None
   \<and> end_pos (decode_chunk False realloc_in_place 0 0 example_header skip_state) = Some 10
   \<and> decode_frame False realloc_in_place 0 example_header frame_state \<noteq> None
   \<and> end_pos (decode_frame False realloc_in_place 0 example_header frame_state) = Some 16"
proof -
  have a: "decode_chunk False realloc_in_place 0 0 example_header skip_state \<noteq> None" by code_simp
  have b: "decode_frame False realloc_in_place 0 example_header frame_state \<noteq> None" by code_simp
  have c: "ctx_pos (ds_F skip_state) = 0"
    "uint (ch_size (fst (ASE_DOC_ChunkHeader_read (ds_F skip_state)))) = 10"
    by code_simp+
  have d: "ctx_pos (ds_F frame_state) = 0"
    "uint (fh_size (fst (ASE_FrameHeader_read (ds_F frame_state)))) = 16"
    by code_simp+
  show ?thesis
    using a b C7_resync [of False realloc_in_place 0 0 example_header skip_state]
      C7_resync [of False realloc_in_place 0 0 example_header frame_state]
    by (simp add: c d int_of_size_t_def)
qed

subsection \<open>A compressed cel that fails to decompress (C8)\<close>

lemma read_compressed_failed:
  assumes "read_bytes (nat (int_of_size_t (EndPos - ctx_pos F))) F = (ibuffer, F')"
    and "map_option fst
           (stbi_zlib_decode_buffer nd
              (case ASE_MALLOC (sint (cel_w Cel) * sint (cel_h Cel) * bpp) of
                 None \<Rightarrow> [] | Some b \<Rightarrow> b)
              (sint (cel_w Cel) * sint (cel_h Cel) * bpp) ibuffer) = Some (-1)"
  shows "read_compressed nd bpp F Cel EndPos = Some (Cel, F')"
  using assms
  by (auto simp add: read_compressed_def Let_def ASE__mem_tell_def split: option.splits)

lemma Cel_read_compressed_failed:
  assumes hdr: "ASE_CelHeader_read F = (H, F1)"
    and ty: "clh_type H = ASE_FILE_COMPRESSED_CEL"
    and lay: "uint (clh_layer H) < spr_nlayers S"
      "lay_type (layer_at (spr_layers S) (uint (clh_layer H))) = ASE_FILE_LAYER_IMAGE"
    and sz: "ASE__read16 F1 = (w, F2)" "ASE__read16 F2 = (h, F3)" "0 < w" "0 < h"
    and depth: "bytes_per_pixel (spr_depth S) = Some bpp"
    and payload: "read_bytes (nat (int_of_size_t (EndPos - ctx_pos F3))) F3 = (ibuffer, F4)"
    and fail: "map_option fst
           (stbi_zlib_decode_buffer nd
              (case ASE_MALLOC (sint w * sint h * bpp) of None \<Rightarrow> [] | Some b \<Rightarrow> b)
              (sint w * sint h * bpp) ibuffer) = Some (-1)"
    and fr: "Frame < length (spr_frames S)"
      "frm_ncels (spr_frames S ! Frame) = int (length (frm_cels (spr_frames S ! Frame)))"
  shows "ASE_Cel_read nd F S i Frame EndPos =
    Some (Some (length (frm_cels (spr_frames S ! Frame))), F4,
      S\<lparr>spr_frames := (spr_frames S)
          [Frame := (spr_frames S ! Frame)
             \<lparr>frm_ncels := frm_ncels (spr_frames S ! Frame) + 1,
              frm_cels := frm_cels (spr_frames S ! Frame)
                @ [zero_cel\<lparr>cel_layer := clh_layer H, cel_x := clh_x H, cel_y := clh_y H,
                     cel_opacity := clh_opacity H, cel_w := w, cel_h := h\<rparr>]\<rparr>]\<rparr>)"
proof -
  let ?C1 = "zero_cel\<lparr>cel_layer := clh_layer H, cel_x := clh_x H, cel_y := clh_y H,
                     cel_opacity := clh_opacity H, cel_w := w, cel_h := h\<rparr>"
  have rc: "read_compressed nd bpp F3 ?C1 EndPos = Some (?C1, F4)"
    by (rule read_compressed_failed [OF payload]) (use fail in simp)
  have size: "cel_read_size F1 (zero_cel\<lparr>cel_layer := clh_layer H, cel_x := clh_x H,
      cel_y := clh_y H, cel_opacity := clh_opacity H\<rparr>) = ((w, h, ?C1), F3)"
    by (simp add: cel_read_size_def sz)
  have ne: "ASE_FILE_COMPRESSED_CEL \<noteq> ASE_FILE_RAW_CEL" "ASE_FILE_COMPRESSED_CEL \<noteq> ASE_FILE_LINK_CEL"
    by (simp_all add: ASE_FILE_COMPRESSED_CEL_def ASE_FILE_RAW_CEL_def ASE_FILE_LINK_CEL_def)
  have dn: "ASE_DEPTH_GRAYSCALE \<noteq> ASE_DEPTH_RGBA" "ASE_DEPTH_INDEXED \<noteq> ASE_DEPTH_RGBA"
    "ASE_DEPTH_INDEXED \<noteq> ASE_DEPTH_GRAYSCALE"
    by (simp_all add: ASE_DEPTH_RGBA_def ASE_DEPTH_GRAYSCALE_def ASE_DEPTH_INDEXED_def)
  have upd: "(frm_cels (spr_frames S ! Frame) @ [zero_cel])
      [nat (frm_ncels (spr_frames S ! Frame) + 1 - 1) := ?C1]
      = frm_cels (spr_frames S ! Frame) @ [?C1]"
    by (simp add: fr(2))
  from depth consider "spr_depth S = ASE_DEPTH_RGBA" "bpp = 4"
    | "spr_depth S = ASE_DEPTH_GRAYSCALE" "bpp = 2"
    | "spr_depth S = ASE_DEPTH_INDEXED" "bpp = 1"
    by (auto simp add: bytes_per_pixel_def split: if_splits)
  then show ?thesis
  proof cases
    case 1
    then show ?thesis
      using rc upd
      by (simp add: ASE_Cel_read_def hdr Let_def lay ty ne size sz frame_of_def fr
          ASE_DOC_AddCel_def ASE_DOC_read_compressed_rgba_def)
  next
    case 2
    then show ?thesis
      using rc upd
      by (simp add: ASE_Cel_read_def hdr Let_def lay ty ne dn size sz frame_of_def fr
          ASE_DOC_AddCel_def ASE_DOC_read_compressed_grayscale_def)
  next
    case 3
    then show ?thesis
      using rc upd
      by (simp add: ASE_Cel_read_def hdr Let_def lay ty ne dn size sz frame_of_def fr
          ASE_DOC_AddCel_def ASE_DOC_read_compressed_indexed_def)
  qed
qed

text \<open>
  C8. Take a cel chunk of the compressed kind for an image layer of the sprite, with a
  positive width and height, in a sprite of depth 32, 16 or 8, read while the frame
  \<open>Frame\<close> is decoded; let \<open>ibuffer\<close> be the bytes up to the end of the chunk, handed to
  \<open>stbi_zlib_decode_buffer\<close>, and let that call return \<open>-1\<close>. Then the turn of the chunk
  loop returns; the frame has one more cel, with the fields of the chunk and no pixel
  data; nothing else of the decoder's state has changed (the running layer state and
  the other cels, frames, layers and tags are as before), and the context stands at the
  end of the chunk, where the next chunk is read as usual.
\<close>

theorem C8_failed_cel_stays_empty:
  assumes ch: "ASE_DOC_ChunkHeader_read (ds_F st) = (CH, F)"
      "ch_type CH = ASE_FILE_CHUNK_CEL"
    and hdr: "ASE_CelHeader_read F = (H, F1)"
      "clh_type H = ASE_FILE_COMPRESSED_CEL"
    and lay: "uint (clh_layer H) < spr_nlayers (ds_S st)"
      "lay_type (layer_at (spr_layers (ds_S st)) (uint (clh_layer H))) = ASE_FILE_LAYER_IMAGE"
    and sz: "ASE__read16 F1 = (w, F2)" "ASE__read16 F2 = (h, F3)" "0 < w" "0 < h"
    and depth: "bytes_per_pixel (spr_depth (ds_S st)) = Some bpp"
    and payload: "read_bytes
        (nat (int_of_size_t (ctx_pos (ds_F st) + uint (ch_size CH) - ctx_pos F3))) F3
        = (ibuffer, F4)"
    and fail: "map_option fst
           (stbi_zlib_decode_buffer nd
              (case ASE_MALLOC (sint w * sint h * bpp) of None \<Rightarrow> [] | Some b \<Rightarrow> b)
              (sint w * sint h * bpp) ibuffer) = Some (-1)"
    and fr: "Frame < length (spr_frames (ds_S st))"
      "frm_ncels (spr_frames (ds_S st) ! Frame)
         = int (length (frm_cels (spr_frames (ds_S st) ! Frame)))"
  shows "decode_chunk nd al i Frame Header st =
      Some (st\<lparr>ds_F := ASE__mem_seek F4 (int_of_size_t (ctx_pos (ds_F st) + uint (ch_size CH))),
               ds_S := (ds_S st)\<lparr>spr_frames := (spr_frames (ds_S st))
                 [Frame := frame_with (spr_frames (ds_S st) ! Frame) (cel_shell H w h)]\<rparr>\<rparr>)
    \<and> cel_data (cel_shell H w h) = None"
proof -
  have ty: "ASE_FILE_CHUNK_CEL \<noteq> ASE_FILE_CHUNK_FLI_COLOR"
    "ASE_FILE_CHUNK_CEL \<noteq> ASE_FILE_CHUNK_FLI_COLOR2"
    "ASE_FILE_CHUNK_CEL \<noteq> ASE_FILE_CHUNK_PALETTE"
    "ASE_FILE_CHUNK_CEL \<noteq> ASE_FILE_CHUNK_LAYER"
    by (simp_all add: ASE_FILE_CHUNK_CEL_def ASE_FILE_CHUNK_FLI_COLOR_def
        ASE_FILE_CHUNK_FLI_COLOR2_def ASE_FILE_CHUNK_PALETTE_def ASE_FILE_CHUNK_LAYER_def)
  have cel: "ASE_Cel_read nd F (ds_S st) i Frame (ctx_pos (ds_F st) + uint (ch_size CH)) =
      Some (Some (length (frm_cels (spr_frames (ds_S st) ! Frame))), F4,
        (ds_S st)\<lparr>spr_frames := (spr_frames (ds_S st))
           [Frame := frame_with (spr_frames (ds_S st) ! Frame) (cel_shell H w h)]\<rparr>)"
    unfolding frame_with_def cel_shell_def
    by (rule Cel_read_compressed_failed [OF hdr lay sz depth payload fail fr])
  have "cel_data (cel_shell H w h) = None"
    by (simp add: cel_shell_def zero_cel_def)
  then show ?thesis
    by (simp add: decode_chunk_def Let_def ch chunk_dispatch_def ty cel ASE__mem_tell_def)
qed

theorem C8_failed_cel_stays_empty_witness:
  "first_frame_data (decode_chunk False realloc_in_place 0 0 example_header cel_state) = Some [None]
   \<and> end_pos (decode_chunk False realloc_in_place 0 0 example_header cel_state) = Some 28
   \<and> first_frame_data (decode_chunks False realloc_in_place 0 0 example_header 2 cel_state)
       = Some [None, Some [1, 2, 3, 4]]"
proof -
  let ?X = "ASE_DOC_ChunkHeader_read (ds_F cel_state)"
  let ?Y = "ASE_CelHeader_read (snd ?X)"
  let ?W = "ASE__read16 (snd ?Y)"
  let ?H = "ASE__read16 (snd ?W)"
  let ?P = "read_bytes (nat (int_of_size_t
      (ctx_pos (ds_F cel_state) + uint (ch_size (fst ?X)) - ctx_pos (snd ?H)))) (snd ?H)"
  have h1: "ch_type (fst ?X) = ASE_FILE_CHUNK_CEL" by code_simp
  have h2: "clh_type (fst ?Y) = ASE_FILE_COMPRESSED_CEL" by code_simp
  have h3: "uint (clh_layer (fst ?Y)) < spr_nlayers (ds_S cel_state)" by code_simp
  have h4: "lay_type (layer_at (spr_layers (ds_S cel_state)) (uint (clh_layer (fst ?Y))))
      = ASE_FILE_LAYER_IMAGE" by code_simp
  have h5: "0 < fst ?W" "0 < fst ?H" by code_simp+
  have h6: "bytes_per_pixel (spr_depth (ds_S cel_state)) = Some 4" by code_simp
  have h7: "map_option fst
           (stbi_zlib_decode_buffer False
              (case ASE_MALLOC (sint (fst ?W) * sint (fst ?H) * 4) of None \<Rightarrow> [] | Some b \<Rightarrow> b)
              (sint (fst ?W) * sint (fst ?H) * 4) (fst ?P)) = Some (-1)" by code_simp
  have h8: "(0::nat) < length (spr_frames (ds_S cel_state))"
    "frm_ncels (spr_frames (ds_S cel_state) ! 0)
         = int (length (frm_cels (spr_frames (ds_S cel_state) ! 0)))" by code_simp+
  have e: "int_of_size_t (ctx_pos (ds_F cel_state) + uint (ch_size (fst ?X))) = 28"
    by code_simp
  have f: "frm_cels (spr_frames (ds_S cel_state) ! 0) = []" by code_simp
  have g: "first_frame_data (decode_chunks False realloc_in_place 0 0 example_header 2 cel_state)
       = Some [None, Some [1, 2, 3, 4]]" by code_simp
  have "decode_chunk False realloc_in_place 0 0 example_header cel_state =
      Some (cel_state\<lparr>ds_F := ASE__mem_seek (snd ?P)
                 (int_of_size_t (ctx_pos (ds_F cel_state) + uint (ch_size (fst ?X)))),
               ds_S := (ds_S cel_state)\<lparr>spr_frames := (spr_frames (ds_S cel_state))
                 [0 := frame_with (spr_frames (ds_S cel_state) ! 0)
                    (cel_shell (fst ?Y) (fst ?W) (fst ?H))]\<rparr>\<rparr>)
    \<and> cel_data (cel_shell (fst ?Y) (fst ?W) (fst ?H)) = None"
    by (rule C8_failed_cel_stays_empty [where bpp = 4 and ibuffer = "fst ?P",
          OF _ h1 _ h2 h3 h4 _ _ h5 h6 _ h7 h8]) simp_all
  then show ?thesis
    using h8(1) g
    by (simp add: first_frame_data_def end_pos_def frame_of_def frame_with_def f e
        ASE__mem_seek_def)
qed

subsection \<open>Releasing a sprite (C10)\<close>

text \<open>
  The loops of \<open>ASE_free\<close> read the arrays from the store while they release blocks; the
  lemmas below follow the store through them. A loop that has released the addresses in
  \<open>A\<close> runs on the store \<open>h |` (- (A - {0}))\<close>.
\<close>

lemma agree_off_mono: "agree_off A h h' \<Longrightarrow> A \<subseteq> B \<Longrightarrow> agree_off B h h'"
  by (auto simp add: agree_off_def)

lemma agree_off_load: "agree_off A h h' \<Longrightarrow> a = 0 \<or> a \<notin> A \<Longrightarrow> load h' a = load h a"
  by (auto simp add: agree_off_def load_def)

lemma restrict_free:
  "p \<noteq> 0 \<Longrightarrow> (h(p := None)) |` (- (A - {0})) = h |` (- (insert p A - {0}))"
  by (rule ext) (auto simp add: restrict_map_def)

lemma free_fields_frees:
  assumes "those (map (field h) [i..<i + k]) = Some ps"
    and "\<And>h'. agree_off (set ps - {0}) h h' \<Longrightarrow> field h' = field h"
    and "distinct (removeAll 0 ps)" and "set ps - {0} \<subseteq> dom h"
  shows "free_fields field k i h = Some (h |` (- (set ps - {0})))"
  using assms
proof (induction k arbitrary: i h ps)
  case 0
  then show ?case by simp
next
  case (Suc k)
  have upt: "[i..<i + Suc k] = i # [Suc i..<Suc i + k]"
    by (simp add: upt_conv_Cons)
  from Suc.prems(1) obtain p ps' where p: "field h i = Some p"
    and ps': "those (map (field h) [Suc i..<Suc i + k]) = Some ps'" and ps: "ps = p # ps'"
    unfolding upt by (auto split: option.splits)
  show ?case
  proof (cases "p = 0")
    case True
    have "free_fields field k (Suc i) h = Some (h |` (- (set ps' - {0})))"
    proof (rule Suc.IH [OF ps'])
      fix h' assume "agree_off (set ps' - {0}) h h'"
      then have "agree_off (set ps - {0}) h h'"
        by (rule agree_off_mono) (auto simp add: ps)
      then show "field h' = field h" by (rule Suc.prems(2))
    next
      show "distinct (removeAll 0 ps')" using Suc.prems(3) by (simp add: ps True)
      show "set ps' - {0} \<subseteq> dom h" using Suc.prems(4) by (auto simp add: ps)
    qed
    moreover have "set ps - {0} = set ps' - {0}" using True by (auto simp add: ps)
    ultimately show ?thesis by (simp add: p True ASE_FREE_def)
  next
    case False
    let ?h1 = "h(p := None)"
    have pdom: "p \<in> dom h" using Suc.prems(4) False by (auto simp add: ps)
    have pnot: "p \<notin> set ps'" using Suc.prems(3) False by (simp add: ps)
    have ag: "agree_off (set ps - {0}) h ?h1"
      using False by (simp add: agree_off_def ps)
    have f1: "field ?h1 = field h" by (rule Suc.prems(2) [OF ag])
    have "free_fields field k (Suc i) ?h1 = Some (?h1 |` (- (set ps' - {0})))"
    proof (rule Suc.IH)
      show "those (map (field ?h1) [Suc i..<Suc i + k]) = Some ps'"
        using ps' by (simp add: f1)
    next
      fix h' assume a: "agree_off (set ps' - {0}) ?h1 h'"
      have "agree_off (set ps - {0}) h h'"
        using a False by (auto simp add: agree_off_def ps)
      then show "field h' = field ?h1" using Suc.prems(2) f1 by simp
    next
      show "distinct (removeAll 0 ps')" using Suc.prems(3) False by (simp add: ps)
      show "set ps' - {0} \<subseteq> dom ?h1" using Suc.prems(4) pnot by (auto simp add: ps)
    qed
    then have "free_fields field k (Suc i) ?h1 = Some (h |` (- (set ps - {0})))"
      by (simp only: restrict_free [OF False] ps list.set(2))
    moreover have "ASE_FREE p h = Some ?h1"
      using pdom False by (simp add: ASE_FREE_def)
    ultimately show ?thesis
      by (simp only: free_fields.simps p option.case)
  qed
qed


lemma agree_off_restrict: "agree_off A h (h |` (- A))"
  by (simp add: agree_off_def restrict_map_def)

lemma restrict_twice: "h |` (- (A - {0})) |` (- (B - {0})) = h |` (- ((A \<union> B) - {0}))"
proof -
  have "- (A - {0}) \<inter> - (B - {0}) = - ((A \<union> B) - {0})" by auto
  then show ?thesis by (simp only: restrict_restrict)
qed

lemma ASE_FREE_restrict:
  assumes "p = 0 \<or> (p \<in> dom h \<and> p \<notin> A)"
  shows "ASE_FREE p (h |` (- (A - {0}))) = Some (h |` (- ((A \<union> {p}) - {0})))"
proof (cases "p = 0")
  case True
  have "(A \<union> {p}) - {0} = A - {0}" using True by auto
  then show ?thesis by (simp add: ASE_FREE_def True)
next
  case False
  with assms have p: "p \<in> dom h" "p \<notin> A" by auto
  have "p \<in> dom (h |` (- (A - {0})))" using p by (auto simp add: restrict_map_def)
  moreover have "(h |` (- (A - {0})))(p := None) = h |` (- ((A \<union> {p}) - {0}))"
    using False by (auto simp add: restrict_map_def fun_eq_iff)
  ultimately show ?thesis using False by (simp add: ASE_FREE_def)
qed

lemma free_fields_frees_after:
  assumes th: "those (map (field h) [0..<k]) = Some qs"
    and st: "\<And>h'. agree_off ((A \<union> set qs) - {0}) h h' \<Longrightarrow> field h' = field h"
    and di: "distinct (removeAll 0 qs)" and al: "set qs - {0} \<subseteq> dom h"
    and dj: "set qs \<inter> A \<subseteq> {0}"
  shows "free_fields field k 0 (h |` (- (A - {0}))) = Some (h |` (- ((A \<union> set qs) - {0})))"
proof -
  let ?g = "h |` (- (A - {0}))"
  have ag: "agree_off ((A \<union> set qs) - {0}) h ?g"
    by (rule agree_off_mono [OF agree_off_restrict]) auto
  have fg: "field ?g = field h" by (rule st [OF ag])
  have "free_fields field k 0 ?g = Some (?g |` (- (set qs - {0})))"
  proof (rule free_fields_frees)
    show "those (map (field ?g) [0..<0 + k]) = Some qs" unfolding fg using th by simp
  next
    fix h' assume a: "agree_off (set qs - {0}) ?g h'"
    have "agree_off ((A \<union> set qs) - {0}) h h'"
      using a by (auto simp add: agree_off_def restrict_map_def)
    then have "field h' = field h" by (rule st)
    then show "field h' = field ?g" unfolding fg .
  next
    show "distinct (removeAll 0 qs)" by (rule di)
    show "set qs - {0} \<subseteq> dom ?g"
    proof
      fix x assume x: "x \<in> set qs - {0}"
      then have "x \<in> dom h" "x \<notin> A" using al dj by auto
      then show "x \<in> dom ?g" by (auto simp add: restrict_map_def)
    qed
  qed
  then show ?thesis by (simp only: restrict_twice)
qed

lemma layer_name_at_stable:
  "agree_off A h h' \<Longrightarrow> a = 0 \<or> a \<notin> A \<Longrightarrow> layer_name_at a h' = layer_name_at a h"
  by (rule ext) (simp add: layer_name_at_def agree_off_load)

lemma tag_name_at_stable:
  "agree_off A h h' \<Longrightarrow> a = 0 \<or> a \<notin> A \<Longrightarrow> tag_name_at a h' = tag_name_at a h"
  by (rule ext) (simp add: tag_name_at_def agree_off_load)

lemma frame_at_stable:
  "agree_off A h h' \<Longrightarrow> a = 0 \<or> a \<notin> A \<Longrightarrow> frame_at a h' i = frame_at a h i"
  by (simp add: frame_at_def agree_off_load)

lemma cel_data_at_stable:
  assumes "agree_off A h h'" and "a = 0 \<or> a \<notin> A"
    and "frame_at a h i = Some I" and "frm_cels I = 0 \<or> frm_cels I \<notin> A"
  shows "cel_data_at a i h' = cel_data_at a i h"
  using assms
  by (intro ext) (simp add: cel_data_at_def frame_at_stable agree_off_load)

lemma distinct_apart:
  "distinct (removeAll 0 (xs @ ys)) \<Longrightarrow> x \<in> set xs \<Longrightarrow> x \<in> set ys \<Longrightarrow> x = (0::nat)"
  by auto

lemma distinct_left: "distinct (removeAll 0 (xs @ ys)) \<Longrightarrow> distinct (removeAll (0::nat) xs)"
  by simp

lemma distinct_right: "distinct (removeAll 0 (xs @ ys)) \<Longrightarrow> distinct (removeAll (0::nat) ys)"
  by simp

lemma distinct_later:
  "distinct (removeAll 0 (xs @ ys)) \<Longrightarrow> x \<in> set ys \<Longrightarrow> x = (0::nat) \<or> x \<notin> set xs"
  by auto

lemma free_frames_frees_after:
  assumes th: "those (map (frame_frees a h) [i..<i + k]) = Some fss"
    and a: "a = 0 \<or> (a \<notin> A \<and> a \<notin> set (concat fss))"
    and di: "distinct (removeAll 0 (concat fss))" and al: "set (concat fss) - {0} \<subseteq> dom h"
    and dj: "set (concat fss) \<inter> A \<subseteq> {0}"
  shows "free_frames a k i (h |` (- (A - {0}))) = Some (h |` (- ((A \<union> set (concat fss)) - {0})))"
  using assms
proof (induction k arbitrary: i A fss)
  case 0
  then show ?case by simp
next
  case (Suc k)
  have upt: "[i..<i + Suc k] = i # [Suc i..<Suc i + k]"
    by (simp add: upt_conv_Cons)
  from Suc.prems(1) obtain fs fss' where fs: "frame_frees a h i = Some fs"
    and fss': "those (map (frame_frees a h) [Suc i..<Suc i + k]) = Some fss'"
    and fss: "fss = fs # fss'"
    unfolding upt by (auto split: option.splits)
  from fs obtain I ds where I: "frame_at a h i = Some I"
    and ds: "those (map (cel_data_at a i h) [0..<nat (frm_ncels I)]) = Some ds"
    and fsds: "fs = ds @ [frm_cels I]"
    by (auto simp add: frame_frees_def split: option.splits)
  let ?c = "frm_cels I"
  have cc: "concat fss = ds @ [?c] @ concat fss'" by (simp add: fss fsds)
  have d1: "distinct (removeAll 0 (ds @ ([?c] @ concat fss')))"
    using Suc.prems(3) by (simp add: cc)
  have d2: "distinct (removeAll 0 ((ds @ [?c]) @ concat fss'))"
    using Suc.prems(3) by (simp add: cc)
  have c_ds: "?c = 0 \<or> ?c \<notin> set ds"
    using distinct_apart [OF d1, of ?c] by auto
  have c_A: "?c = 0 \<or> ?c \<notin> A" using Suc.prems(5) by (auto simp add: cc)
  have a_A: "a = 0 \<or> a \<notin> A" using Suc.prems(2) by auto
  have a_ds: "a = 0 \<or> a \<notin> set ds" using Suc.prems(2) by (auto simp add: cc)
  let ?g = "h |` (- (A - {0}))"
  have "agree_off (A - {0}) h ?g" by (rule agree_off_restrict)
  then have I0: "frame_at a ?g i = Some I"
    using a_A I by (subst frame_at_stable [of "A - {0}" h]) auto
  let ?A1 = "A \<union> set ds"
  let ?g1 = "h |` (- (?A1 - {0}))"
  have inner: "free_fields (cel_data_at a i) (nat (frm_ncels I)) 0 ?g = Some ?g1"
  proof (rule free_fields_frees_after [where field = "cel_data_at a i" and h = h, OF ds])
    fix h' assume ag: "agree_off ((A \<union> set ds) - {0}) h h'"
    have a1: "a = 0 \<or> a \<notin> (A \<union> set ds) - {0}" using a_A a_ds by auto
    have c1: "?c = 0 \<or> ?c \<notin> (A \<union> set ds) - {0}" using c_ds c_A by auto
    show "cel_data_at a i h' = cel_data_at a i h"
      by (rule cel_data_at_stable [OF ag a1 I c1])
  next
    show "distinct (removeAll 0 ds)" by (rule distinct_left [OF d1])
    show "set ds - {0} \<subseteq> dom h" using Suc.prems(4) by (auto simp add: cc)
    show "set ds \<inter> A \<subseteq> {0}" using Suc.prems(5) by (auto simp add: cc)
  qed
  have "agree_off (?A1 - {0}) h ?g1" by (rule agree_off_restrict)
  then have I1: "frame_at a ?g1 i = Some I"
    using a_A a_ds I by (subst frame_at_stable [of "?A1 - {0}" h]) auto
  let ?A2 = "?A1 \<union> {?c}"
  let ?g2 = "h |` (- (?A2 - {0}))"
  have "?c = 0 \<or> (?c \<in> dom h \<and> ?c \<notin> ?A1)"
    using c_ds c_A Suc.prems(4) by (auto simp add: cc)
  then have fr: "ASE_FREE ?c ?g1 = Some ?g2" by (rule ASE_FREE_restrict)
  have rest: "free_frames a k (Suc i) ?g2 = Some (h |` (- ((?A2 \<union> set (concat fss')) - {0})))"
  proof (rule Suc.IH [OF fss'])
    show "a = 0 \<or> (a \<notin> ?A2 \<and> a \<notin> set (concat fss'))"
      using Suc.prems(2) by (auto simp add: cc)
    show "distinct (removeAll 0 (concat fss'))" by (rule distinct_right [OF d2])
    show "set (concat fss') - {0} \<subseteq> dom h" using Suc.prems(4) by (auto simp add: cc)
    show "set (concat fss') \<inter> ?A2 \<subseteq> {0}"
    proof
      fix x assume x: "x \<in> set (concat fss') \<inter> ?A2"
      then have "x \<in> A \<or> x \<in> set (ds @ [?c])" by auto
      then show "x \<in> {0}"
      proof
        assume "x \<in> A" then show ?thesis using x Suc.prems(5) by (auto simp add: cc)
      next
        assume "x \<in> set (ds @ [?c])"
        then show ?thesis using distinct_apart [OF d2, of x] x by auto
      qed
    qed
  qed
  have sets: "?A2 \<union> set (concat fss') = A \<union> set (concat fss)" by (auto simp add: cc)
  show ?case
    by (simp only: free_frames.simps I0 inner I1 fr rest sets option.case)
qed

lemma restrict_nothing: "h |` (- ({} - {0::nat})) = h"
  by (rule ext) (simp add: restrict_map_def)

lemma ASE_free_releases:
  assumes fr: "sprite_frees h S = Some ps"
    and di: "distinct (removeAll 0 ps)" and al: "set ps - {0} \<subseteq> dom h"
  shows "ASE_free h (Some S) = Some (h |` (- (set ps - {0})), Some zero_sprite_mem)"
proof -
  let ?L = "spr_layers S" and ?F = "spr_frames S" and ?T = "spr_tags S"
  from fr obtain ns fss ts
    where ns: "those (map (layer_name_at ?L h) [0..<nat (spr_nlayers S)]) = Some ns"
      and fss: "those (map (frame_frees ?F h) [0..<0 + nat (spr_nframes S)]) = Some fss"
      and ts: "those (map (tag_name_at ?T h) [0..<nat (spr_ntags S)]) = Some ts"
      and ps: "ps = ns @ [?L] @ concat fss @ [?F] @ ts @ [?T]"
    by (auto simp add: sprite_frees_def split: option.splits)
  let ?cf = "concat fss"
  have d1: "distinct (removeAll 0 (ns @ ([?L] @ ?cf @ [?F] @ ts @ [?T])))"
    using di by (simp add: ps)
  have d2: "distinct (removeAll 0 ((ns @ [?L]) @ (?cf @ [?F] @ ts @ [?T])))"
    using di by (simp add: ps)
  have d3: "distinct (removeAll 0 ((ns @ [?L] @ ?cf) @ ([?F] @ ts @ [?T])))"
    using di by (simp add: ps)
  have d4: "distinct (removeAll 0 ((ns @ [?L] @ ?cf @ [?F]) @ (ts @ [?T])))"
    using di by (simp add: ps)
  have d5: "distinct (removeAll 0 ((ns @ [?L] @ ?cf @ [?F] @ ts) @ [?T]))"
    using di by (simp add: ps)
  let ?A1 = "{} \<union> set ns"
  let ?A2 = "?A1 \<union> {?L}"
  let ?A3 = "?A2 \<union> set ?cf"
  let ?A4 = "?A3 \<union> {?F}"
  let ?A5 = "?A4 \<union> set ts"
  let ?A6 = "?A5 \<union> {?T}"
  have s1: "free_fields (layer_name_at ?L) (nat (spr_nlayers S)) 0 (h |` (- ({} - {0})))
              = Some (h |` (- (?A1 - {0})))"
  proof (rule free_fields_frees_after [where field = "layer_name_at ?L" and h = h, OF ns])
    fix h' assume "agree_off (({} \<union> set ns) - {0}) h h'"
    moreover have "?L = 0 \<or> ?L \<notin> ({} \<union> set ns) - {0}"
      using distinct_apart [OF d1, of ?L] by auto
    ultimately show "layer_name_at ?L h' = layer_name_at ?L h"
      by (rule layer_name_at_stable)
  next
    show "distinct (removeAll 0 ns)" by (rule distinct_left [OF d1])
    show "set ns - {0} \<subseteq> dom h" using al by (auto simp add: ps)
    show "set ns \<inter> {} \<subseteq> {0}" by simp
  qed
  have "?L = 0 \<or> (?L \<in> dom h \<and> ?L \<notin> ?A1)"
    using distinct_apart [OF d1, of ?L] al by (auto simp add: ps)
  then have s2: "ASE_FREE ?L (h |` (- (?A1 - {0}))) = Some (h |` (- (?A2 - {0})))"
    by (rule ASE_FREE_restrict)
  have s3: "free_frames ?F (nat (spr_nframes S)) 0 (h |` (- (?A2 - {0})))
              = Some (h |` (- (?A3 - {0})))"
  proof (rule free_frames_frees_after [OF fss])
    show "?F = 0 \<or> (?F \<notin> ?A2 \<and> ?F \<notin> set ?cf)"
      using distinct_later [OF d3, of ?F] by (auto simp del: set_concat)
    show "distinct (removeAll 0 ?cf)" by (rule distinct_left [OF distinct_right [OF d2]])
    show "set ?cf - {0} \<subseteq> dom h" using al by (auto simp add: ps)
    show "set ?cf \<inter> ?A2 \<subseteq> {0}"
    proof
      fix x assume "x \<in> set ?cf \<inter> ?A2"
      then show "x \<in> {0}" using distinct_apart [OF d2, of x] by (auto simp del: set_concat)
    qed
  qed
  have "?F = 0 \<or> (?F \<in> dom h \<and> ?F \<notin> ?A3)"
    using distinct_later [OF d3, of ?F] al by (auto simp add: ps simp del: set_concat)
  then have s4: "ASE_FREE ?F (h |` (- (?A3 - {0}))) = Some (h |` (- (?A4 - {0})))"
    by (rule ASE_FREE_restrict)
  have s5: "free_fields (tag_name_at ?T) (nat (spr_ntags S)) 0 (h |` (- (?A4 - {0})))
              = Some (h |` (- (?A5 - {0})))"
  proof (rule free_fields_frees_after [where field = "tag_name_at ?T" and h = h, OF ts])
    fix h' assume "agree_off ((?A4 \<union> set ts) - {0}) h h'"
    moreover have "?T = 0 \<or> ?T \<notin> (?A4 \<union> set ts) - {0}"
      using distinct_later [OF d5, of ?T] by (auto simp del: set_concat)
    ultimately show "tag_name_at ?T h' = tag_name_at ?T h"
      by (rule tag_name_at_stable)
  next
    show "distinct (removeAll 0 ts)" by (rule distinct_left [OF distinct_right [OF d4]])
    show "set ts - {0} \<subseteq> dom h" using al by (auto simp add: ps)
    show "set ts \<inter> ?A4 \<subseteq> {0}"
    proof
      fix x assume "x \<in> set ts \<inter> ?A4"
      then show "x \<in> {0}" using distinct_apart [OF d4, of x] by (auto simp del: set_concat)
    qed
  qed
  have "?T = 0 \<or> (?T \<in> dom h \<and> ?T \<notin> ?A5)"
    using distinct_later [OF d5, of ?T] al by (auto simp add: ps simp del: set_concat)
  then have s6: "ASE_FREE ?T (h |` (- (?A5 - {0}))) = Some (h |` (- (?A6 - {0})))"
    by (rule ASE_FREE_restrict)
  have sets: "?A6 = set ps" by (auto simp add: ps simp del: set_concat)
  have "ASE_free (h |` (- ({} - {0}))) (Some S) = Some (h |` (- (?A6 - {0})), Some zero_sprite_mem)"
    unfolding ASE_free_def by (simp only: s1 s2 s3 s4 s5 s6 option.case)
  then show ?thesis
    by (simp only: restrict_nothing sets)
qed

text \<open>
  C10. Let the sprite own its blocks: every array that a loop of \<open>ASE_free\<close> reads is
  allocated and as long as its count says, and the pointers handed to \<open>ASE_FREE\<close> (the
  layer names, the array of layers, the pixel buffers and the arrays of cels, the array
  of frames, the tag names, the array of tags) are allocated and pairwise different,
  null pointers apart. Then \<open>ASE_free\<close> returns, the store has lost exactly these blocks,
  and every field of the sprite is zero; a second call on the result changes neither the
  store nor the sprite. A null sprite pointer is left alone.
\<close>

theorem C10_free_releases_and_is_idempotent:
  assumes "sprite_frees h S = Some ps"
    and "distinct (removeAll 0 ps)" and "set ps - {0} \<subseteq> dom h"
  shows "ASE_free h (Some S) = Some (h |` (- (set ps - {0})), Some zero_sprite_mem)
    \<and> dom (h |` (- (set ps - {0}))) = dom h - (set ps - {0})
    \<and> ASE_free (h |` (- (set ps - {0}))) (Some zero_sprite_mem)
        = Some (h |` (- (set ps - {0})), Some zero_sprite_mem)
    \<and> ASE_free h None = Some (h, None)"
proof -
  have "ASE_free g (Some zero_sprite_mem) = Some (g, Some zero_sprite_mem)" for g
    by (simp add: ASE_free_def zero_sprite_mem_def ASE_FREE_def)
  moreover have "dom (h |` (- (set ps - {0}))) = dom h - (set ps - {0})"
    by (auto simp add: restrict_map_def dom_def)
  ultimately show ?thesis
    using ASE_free_releases [OF assms] by (simp add: ASE_free_def)
qed

lemma example_frees: "sprite_frees example_store example_sprite_mem = Some [2, 1, 5, 4, 3, 7, 6]"
  by (simp add: sprite_frees_def example_store_def example_sprite_mem_def layer_name_at_def
      frame_frees_def frame_at_def cel_data_at_def tag_name_at_def load_def)

theorem C10_free_releases_and_is_idempotent_witness:
  "sprite_frees example_store example_sprite_mem = Some [2, 1, 5, 4, 3, 7, 6]
   \<and> ASE_free example_store (Some example_sprite_mem)
       = Some (example_store |` (- (set [2, 1, 5, 4, 3, 7, 6] - {0})), Some zero_sprite_mem)
   \<and> dom (example_store |` (- (set [2, 1, 5, 4, 3, 7, 6] - {0}))) = {8}"
proof -
  have d: "dom example_store = {1, 2, 3, 4, 5, 6, 7, 8}"
    by (auto simp add: example_store_def)
  have "distinct (removeAll 0 [2, 1, 5, 4, 3, 7, 6 :: nat])" by simp
  moreover have "set [2, 1, 5, 4, 3, 7, 6] - {0} \<subseteq> dom example_store"
    by (simp add: d)
  ultimately show ?thesis
    using example_frees C10_free_releases_and_is_idempotent [OF example_frees]
    by (auto simp add: d)
qed

end
